theory Spec2Isabelle
  imports Complex_Main
begin

section \<open>TeamCache Manager API client (api-gateway/examples/python-client.py)\<close>

text \<open>
  The client is request/response plumbing around two libraries: an HTTP library
  (sessions, \<open>raise_for_status\<close>, \<open>response.json()\<close>) and a streaming socket.
  The remote service is not part of the program, so it appears here as an explicit
  environment: a function giving the reply to the n-th request, and a list of the
  events the socket delivers. Everything the program does to that environment (the
  requests it issues, the lines it prints) is recorded in an explicit state.
\<close>

subsection \<open>Values: parsed JSON, exceptions, printed lines\<close>

text \<open>
  What \<open>json.loads\<close> and \<open>response.json()\<close> return. A dictionary is the list of its
  items in insertion order; \<open>map_of\<close> looks a key up. Floats are read as reals
  (neither rounding nor NaN plays a part in what follows).
\<close>

datatype json =
    JNull
  | JBool bool
  | JInt int
  | JFloat real
  | JStr string
  | JArr "json list"
  | JObj "(string \<times> json) list"

text \<open>
  The exceptions the program can meet, messages kept where the source gives one.
  All of them are subclasses of \<open>Exception\<close>. The HTTP library refuses a request
  it cannot prepare, before anything is sent, with one of four exceptions.
\<close>

datatype refusal = MissingSchema | InvalidSchema | InvalidURL | InvalidHeader

datatype error =
    ValueError string
  | HTTPError int
  | ConnectionError
  | JSONDecodeError
  | RequestRefused refusal
  | KeyError string
  | TypeError
  | AttributeError
  | ConnectionClosed


text \<open>
  A printed line: the text of the format string and the values put into it. How Python
  renders a value inside an f-string is not modelled.
\<close>

datatype line =
    Text string
  | Fmt string "json list"
  | ErrorLine string error

text \<open>Python's truth value of a parsed JSON value, and of an optional list or string.\<close>

fun truthy :: "json \<Rightarrow> bool" where
  "truthy JNull = False"
| "truthy (JBool b) = b"
| "truthy (JInt i) = (i \<noteq> 0)"
| "truthy (JFloat r) = (r \<noteq> 0)"
| "truthy (JStr s) = (s \<noteq> [])"
| "truthy (JArr xs) = (xs \<noteq> [])"
| "truthy (JObj kvs) = (kvs \<noteq> [])"

fun truthy_opt :: "'a list option \<Rightarrow> bool" where
  "truthy_opt None = False"
| "truthy_opt (Some xs) = (xs \<noteq> [])"

text \<open>
  \<open>obj[key]\<close> with a string key: a dictionary without the key raises KeyError, every
  other JSON value raises TypeError.
\<close>

fun subscript :: "json \<Rightarrow> string \<Rightarrow> error + json" where
  "subscript (JObj kvs) k = (case map_of kvs k of Some v \<Rightarrow> Inr v | None \<Rightarrow> Inl (KeyError k))"
| "subscript _ k = Inl TypeError"

text \<open>
  \<open>obj.get(key, default)\<close>: only a dictionary has the method; \<open>obj.get(key)\<close> is
  \<open>dict_get obj key JNull\<close>.
\<close>

fun dict_get :: "json \<Rightarrow> string \<Rightarrow> json \<Rightarrow> error + json" where
  "dict_get (JObj kvs) k dflt = Inr (case map_of kvs k of Some v \<Rightarrow> v | None \<Rightarrow> dflt)"
| "dict_get _ k dflt = Inl AttributeError"

text \<open>The format specification \<open>:.2f\<close> accepts numbers (and booleans) only.\<close>

fun format_2f :: "json \<Rightarrow> error + unit" where
  "format_2f (JInt i) = Inr ()"
| "format_2f (JFloat r) = Inr ()"
| "format_2f (JBool b) = Inr ()"
| "format_2f (JStr s) = Inl (ValueError ''Unknown format code'')"
| "format_2f _ = Inl TypeError"

text \<open>\<open>s.rstrip(ch)\<close> for a single character.\<close>

definition rstrip :: "char \<Rightarrow> string \<Rightarrow> string" where
  "rstrip ch s = rev (dropWhile (\<lambda>x. x = ch) (rev s))"

subsection \<open>HTTP: requests, responses, the library and the remote service\<close>

datatype http_method = GET | POST | DELETE

text \<open>
  A request as the program determines it: method, URL, the headers the program sets
  (the library's own defaults, such as User-Agent, are left out), the query parameters
  and the JSON body.
\<close>

record request =
  verb :: http_method
  url :: string
  headers :: "(string \<times> string) list"
  params :: "(string \<times> json) list option"
  json_body :: "json option"

text \<open>
  A response: its status code and what \<open>response.json()\<close> makes of its body
  (\<open>None\<close> when the body is not valid JSON).
\<close>

record response =
  status_code :: int
  body :: "json option"

text \<open>
  What comes of handing a request to the library: the library refuses to prepare it
  (a URL without scheme or host, a malformed header) and sends nothing; or it sends the
  request and no response arrives (ConnectionError); or a response arrives. Which of
  these happens is decided outside the program, by the library and the remote service:
  \<open>srv n rq\<close> is what comes of the n-th request handed over (counted from 0).
\<close>

datatype reply = Refused refusal | NoResponse | Response response

type_synonym server = "nat \<Rightarrow> request \<Rightarrow> reply"

text \<open>
  The program's visible effects: the requests handed to the library so far (the calls of
  \<open>get\<close>, \<open>post\<close> and \<open>delete\<close>), those of them that the library has sent, and the
  lines printed.
\<close>

record io =
  issued :: "request list"
  sent :: "request list"
  out :: "line list"

definition print :: "line \<Rightarrow> io \<Rightarrow> io" where
  "print l w = w\<lparr>out := out w @ [l]\<rparr>"

definition http_send :: "server \<Rightarrow> request \<Rightarrow> io \<Rightarrow> (error + response) \<times> io" where
  "http_send srv rq w =
     (case srv (length (issued w)) rq of
        Refused f \<Rightarrow> (Inl (RequestRefused f), w\<lparr>issued := issued w @ [rq]\<rparr>)
      | NoResponse \<Rightarrow> (Inl ConnectionError, w\<lparr>issued := issued w @ [rq], sent := sent w @ [rq]\<rparr>)
      | Response r \<Rightarrow> (Inr r, w\<lparr>issued := issued w @ [rq], sent := sent w @ [rq]\<rparr>))"

text \<open>
  \<open>response.raise_for_status()\<close> raises HTTPError for the client and server error
  codes, 400 to 599, and returns otherwise; \<open>response.json()\<close> parses the body.
\<close>

definition raise_for_status :: "response \<Rightarrow> error + unit" where
  "raise_for_status r =
     (if 400 \<le> status_code r \<and> status_code r < 600 then Inl (HTTPError (status_code r))
      else Inr ())"

definition response_json :: "response \<Rightarrow> error + json" where
  "response_json r = (case body r of None \<Rightarrow> Inl JSONDecodeError | Some j \<Rightarrow> Inr j)"

subsection \<open>TeamCacheClient\<close>

record client =
  api_url :: string
  api_key :: string
  session_headers :: "(string \<times> string) list"

text \<open>\<open>TeamCacheClient.__init__\<close>: the session's headers are updated with the two entries.\<close>

definition TeamCacheClient_init :: "string \<Rightarrow> string \<Rightarrow> client" where
  "TeamCacheClient_init base_url key =
     \<lparr>api_url = rstrip CHR ''/'' base_url,
      api_key = key,
      session_headers = [(''X-API-Key'', key), (''Content-Type'', ''application/json'')]\<rparr>"

text \<open>
  \<open>self.session.get/post/delete\<close> send the session's headers with the request;
  the module-level \<open>requests.get\<close> knows no session and sends none of them.
\<close>

definition session_get ::
  "server \<Rightarrow> client \<Rightarrow> string \<Rightarrow> (string \<times> json) list option \<Rightarrow> io \<Rightarrow> (error + response) \<times> io" where
  "session_get srv c u ps w =
     http_send srv \<lparr>verb = GET, url = u, headers = session_headers c, params = ps, json_body = None\<rparr> w"

definition session_post ::
  "server \<Rightarrow> client \<Rightarrow> string \<Rightarrow> json \<Rightarrow> io \<Rightarrow> (error + response) \<times> io" where
  "session_post srv c u j w =
     http_send srv \<lparr>verb = POST, url = u, headers = session_headers c, params = None, json_body = Some j\<rparr> w"

definition session_delete ::
  "server \<Rightarrow> client \<Rightarrow> string \<Rightarrow> io \<Rightarrow> (error + response) \<times> io" where
  "session_delete srv c u w =
     http_send srv \<lparr>verb = DELETE, url = u, headers = session_headers c, params = None, json_body = None\<rparr> w"

definition requests_get :: "server \<Rightarrow> string \<Rightarrow> io \<Rightarrow> (error + response) \<times> io" where
  "requests_get srv u w =
     http_send srv \<lparr>verb = GET, url = u, headers = [], params = None, json_body = None\<rparr> w"

text \<open>
  The two lines that end every operation:
  \<^verbatim>\<open>response.raise_for_status(); return response.json()\<close>,
  after a call that may itself have raised.
\<close>

definition checked_json :: "(error + response) \<times> io \<Rightarrow> (error + json) \<times> io" where
  "checked_json res =
     (case res of
        (Inl e, w) \<Rightarrow> (Inl e, w)
      | (Inr r, w) \<Rightarrow>
          (case raise_for_status r of
             Inl e \<Rightarrow> (Inl e, w)
           | Inr _ \<Rightarrow> (response_json r, w)))"

definition health_check :: "server \<Rightarrow> client \<Rightarrow> io \<Rightarrow> (error + json) \<times> io" where
  "health_check srv c w = checked_json (session_get srv c (api_url c @ ''/api/v1/health'') None w)"

text \<open>
  \<open>create_cache_job\<close>: \<open>files\<close> and \<open>directories\<close> are optional lists, tested by truth
  value; the body starts as \<open>{"recursive": recursive}\<close> and gains a key for each
  list that is true.
\<close>

definition create_cache_job_data :: "string list option \<Rightarrow> string list option \<Rightarrow> bool \<Rightarrow> (string \<times> json) list" where
  "create_cache_job_data files directories recursive =
     [(''recursive'', JBool recursive)]
     @ (if truthy_opt files then [(''files'', JArr (map JStr (the files)))] else [])
     @ (if truthy_opt directories then [(''directories'', JArr (map JStr (the directories)))] else [])"

definition create_cache_job ::
  "server \<Rightarrow> client \<Rightarrow> string list option \<Rightarrow> string list option \<Rightarrow> bool \<Rightarrow> io \<Rightarrow> (error + json) \<times> io" where
  "create_cache_job srv c files directories recursive w =
     (if \<not> truthy_opt files \<and> \<not> truthy_opt directories
      then (Inl (ValueError ''Must provide either files or directories''), w)
      else checked_json
             (session_post srv c (api_url c @ ''/api/v1/cache/jobs'')
                (JObj (create_cache_job_data files directories recursive)) w))"

definition get_job_status :: "server \<Rightarrow> client \<Rightarrow> string \<Rightarrow> io \<Rightarrow> (error + json) \<times> io" where
  "get_job_status srv c job_id w =
     checked_json (session_get srv c (api_url c @ ''/api/v1/cache/jobs/'' @ job_id) None w)"

text \<open>\<open>list_jobs\<close>: \<open>status\<close> is an optional string, tested by truth value.\<close>

definition list_jobs_params :: "int \<Rightarrow> int \<Rightarrow> string option \<Rightarrow> (string \<times> json) list" where
  "list_jobs_params page limit status =
     [(''page'', JInt page), (''limit'', JInt limit)]
     @ (if truthy_opt status then [(''status'', JStr (the status))] else [])"

definition list_jobs ::
  "server \<Rightarrow> client \<Rightarrow> int \<Rightarrow> int \<Rightarrow> string option \<Rightarrow> io \<Rightarrow> (error + json) \<times> io" where
  "list_jobs srv c page limit status w =
     checked_json
       (session_get srv c (api_url c @ ''/api/v1/cache/jobs'')
          (Some (list_jobs_params page limit status)) w)"

definition cancel_job :: "server \<Rightarrow> client \<Rightarrow> string \<Rightarrow> io \<Rightarrow> (error + json) \<times> io" where
  "cancel_job srv c job_id w =
     checked_json (session_delete srv c (api_url c @ ''/api/v1/cache/jobs/'' @ job_id) w)"

definition get_metrics :: "server \<Rightarrow> client \<Rightarrow> io \<Rightarrow> (error + json) \<times> io" where
  "get_metrics srv c w = checked_json (requests_get srv (api_url c @ ''/api/v1/metrics'') w)"

definition get_s3_metrics :: "server \<Rightarrow> client \<Rightarrow> io \<Rightarrow> (error + json) \<times> io" where
  "get_s3_metrics srv c w = checked_json (requests_get srv (api_url c @ ''/api/v1/metrics/s3'') w)"

subsection \<open>monitor_job: the polling loop\<close>

text \<open>\<open>obj[k1][k2]\<close>, and \<open>time.sleep\<close>, which refuses a negative length.\<close>

definition subscript2 :: "json \<Rightarrow> string \<Rightarrow> string \<Rightarrow> error + json" where
  "subscript2 obj k1 k2 = (case subscript obj k1 of Inl e \<Rightarrow> Inl e | Inr v \<Rightarrow> subscript v k2)"

definition sleep :: "int \<Rightarrow> error + unit" where
  "sleep seconds =
     (if seconds < 0 then Inl (ValueError ''sleep length must be non-negative'') else Inr ())"

text \<open>
  The default progress display of \<open>monitor_job\<close> (no callback): it reads
  \<open>job["progress"]\<close> and three fields of \<open>progress["size"]\<close>, in this order, and
  prints one line.
\<close>

definition default_progress :: "json \<Rightarrow> io \<Rightarrow> (error + unit) \<times> io" where
  "default_progress job w =
     (case subscript job ''progress'' of
        Inl e \<Rightarrow> (Inl e, w)
      | Inr progress \<Rightarrow>
          (case subscript2 progress ''size'' ''completedReadable'' of
             Inl e \<Rightarrow> (Inl e, w)
           | Inr done_r \<Rightarrow>
               (case subscript2 progress ''size'' ''totalReadable'' of
                  Inl e \<Rightarrow> (Inl e, w)
                | Inr total_r \<Rightarrow>
                    (case subscript2 progress ''size'' ''percentage'' of
                       Inl e \<Rightarrow> (Inl e, w)
                     | Inr pct \<Rightarrow>
                         (Inr (), print (Fmt ''Progress: {} / {} ({}%)'' [done_r, total_r, pct]) w)))))"

text \<open>
  A callback is an object with a truth value (\<open>if callback:\<close> tests it; a plain function
  is true) that is called with the job. It receives the dictionary itself, so the call
  raises or returns with the job as the callback has left it, changed or not.
  \<open>report_progress\<close> is the \<open>if callback: callback(job) else: <default display>\<close>
  of the loop; it yields the job as it is afterwards.
\<close>

record callback =
  cb_truth :: bool
  cb_call :: "json \<Rightarrow> error + json"

definition use_callback :: "callback option \<Rightarrow> bool" where
  "use_callback cb = (case cb of None \<Rightarrow> False | Some f \<Rightarrow> cb_truth f)"

definition report_progress :: "callback option \<Rightarrow> json \<Rightarrow> io \<Rightarrow> (error + json) \<times> io" where
  "report_progress cb job w =
     (if use_callback cb
      then (case cb_call (the cb) job of Inl e \<Rightarrow> (Inl e, w) | Inr job' \<Rightarrow> (Inr job', w))
      else (case default_progress job w of
              (Inl e, w') \<Rightarrow> (Inl e, w')
            | (Inr _, w') \<Rightarrow> (Inr job, w')))"

definition terminal_statuses :: "json list" where
  "terminal_statuses = [JStr ''completed'', JStr ''failed'', JStr ''cancelled'']"

text \<open>
  \<open>monitor_job\<close> is \<open>while True\<close>: it may never return. The first argument bounds the
  number of polls; \<open>None\<close> says that the loop is still running after that many.
  Every exception leaves the loop and the function.
\<close>

fun monitor_job ::
  "nat \<Rightarrow> server \<Rightarrow> client \<Rightarrow> string \<Rightarrow> int \<Rightarrow> callback option \<Rightarrow> io \<Rightarrow> ((error + json) \<times> io) option" where
  "monitor_job 0 srv c job_id interval cb w = None"
| "monitor_job (Suc fuel) srv c job_id interval cb w =
     (case get_job_status srv c job_id w of
        (Inl e, w1) \<Rightarrow> Some (Inl e, w1)
      | (Inr status, w1) \<Rightarrow>
          (case subscript status ''job'' of
             Inl e \<Rightarrow> Some (Inl e, w1)
           | Inr job \<Rightarrow>
               (case report_progress cb job w1 of
                  (Inl e, w2) \<Rightarrow> Some (Inl e, w2)
                | (Inr job', w2) \<Rightarrow>
                    (case subscript job' ''status'' of
                       Inl e \<Rightarrow> Some (Inl e, w2)
                     | Inr st \<Rightarrow>
                         if st \<in> set terminal_statuses
                         then Some (Inr job', print (Text []) w2)
                         else (case sleep interval of
                                 Inl e \<Rightarrow> Some (Inl e, w2)
                               | Inr _ \<Rightarrow> monitor_job fuel srv c job_id interval cb w2)))))"

subsection \<open>batch_cache_directories\<close>

text \<open>
  How a value appears inside an f-string: a string as itself, any other value as
  Python's \<open>str()\<close> renders it, which is taken as a parameter.
\<close>

definition py_str :: "(json \<Rightarrow> string) \<Rightarrow> json \<Rightarrow> string" where
  "py_str render j = (case j of JStr s \<Rightarrow> s | _ \<Rightarrow> render j)"

text \<open>
  The body of the \<open>try\<close> for one directory. It yields how the body ended (normally,
  or with the exception raised), the list \<open>job_ids\<close> and the effects so far; \<open>None\<close>
  when \<open>monitor_job\<close> is still polling after \<open>fuel\<close> polls.
\<close>

definition try_submit ::
  "nat \<Rightarrow> server \<Rightarrow> (json \<Rightarrow> string) \<Rightarrow> client \<Rightarrow> bool \<Rightarrow> string \<Rightarrow> json list \<Rightarrow> io
     \<Rightarrow> ((error + unit) \<times> json list \<times> io) option" where
  "try_submit fuel srv render c monitor directory job_ids w =
     (case create_cache_job srv c None (Some [directory]) True
             (print (Fmt ''Submitting job for: {}'' [JStr directory]) w) of
        (Inl e, w1) \<Rightarrow> Some (Inl e, job_ids, w1)
      | (Inr result, w1) \<Rightarrow>
          (case subscript result ''jobId'' of
             Inl e \<Rightarrow> Some (Inl e, job_ids, w1)
           | Inr job_id \<Rightarrow>
               (let job_ids' = job_ids @ [job_id];
                    w2 = print (Fmt ''  Created job: {}'' [job_id]) w1
                in case subscript result ''totalFiles'' of
                     Inl e \<Rightarrow> Some (Inl e, job_ids', w2)
                   | Inr total_files \<Rightarrow>
                       (let w3 = print (Fmt ''  Files: {}'' [total_files]) w2
                        in case subscript2 result ''totalSize'' ''readable'' of
                             Inl e \<Rightarrow> Some (Inl e, job_ids', w3)
                           | Inr readable \<Rightarrow>
                               (let w4 = print (Fmt ''  Size: {}'' [readable]) w3
                                in if monitor
                                   then (case monitor_job fuel srv c (py_str render job_id) 5 None
                                                (print (Text ''  Monitoring progress...'') w4) of
                                           None \<Rightarrow> None
                                         | Some (Inl e, w5) \<Rightarrow> Some (Inl e, job_ids', w5)
                                         | Some (Inr final_status, w5) \<Rightarrow>
                                             (case subscript final_status ''status'' of
                                                Inl e \<Rightarrow> Some (Inl e, job_ids', w5)
                                              | Inr st \<Rightarrow>
                                                  Some (Inr (), job_ids',
                                                        print (Fmt ''  Final status: {}'' [st]) w5)))
                                   else Some (Inr (), job_ids', w4))))))"

text \<open>
  The \<open>for\<close> loop with its \<open>except Exception\<close> handler, which prints the exception
  and goes on with the next directory.
\<close>

fun batch_loop ::
  "nat \<Rightarrow> server \<Rightarrow> (json \<Rightarrow> string) \<Rightarrow> client \<Rightarrow> bool \<Rightarrow> string list \<Rightarrow> json list \<Rightarrow> io
     \<Rightarrow> (json list \<times> io) option" where
  "batch_loop fuel srv render c monitor [] job_ids w = Some (job_ids, w)"
| "batch_loop fuel srv render c monitor (directory # rest) job_ids w =
     (case try_submit fuel srv render c monitor directory job_ids w of
        None \<Rightarrow> None
      | Some (Inl e, job_ids', w') \<Rightarrow>
          batch_loop fuel srv render c monitor rest job_ids' (print (ErrorLine ''  Error: {}'' e) w')
      | Some (Inr _, job_ids', w') \<Rightarrow>
          batch_loop fuel srv render c monitor rest job_ids' w')"

definition batch_cache_directories ::
  "nat \<Rightarrow> server \<Rightarrow> (json \<Rightarrow> string) \<Rightarrow> client \<Rightarrow> string list \<Rightarrow> bool \<Rightarrow> io
     \<Rightarrow> (json list \<times> io) option" where
  "batch_cache_directories fuel srv render c directories monitor w =
     batch_loop fuel srv render c monitor directories [] w"

text \<open>
  For stating what \<open>batch_cache_directories\<close> returns: the request that
  \<open>create_cache_job(directories=[directory])\<close> issues, and what an operation makes of the
  reply to its request (the result part of \<open>checked_json\<close>).
\<close>

definition submit_request :: "client \<Rightarrow> string \<Rightarrow> request" where
  "submit_request c directory =
     \<lparr>verb = POST, url = api_url c @ ''/api/v1/cache/jobs'', headers = session_headers c,
      params = None,
      json_body = Some (JObj [(''recursive'', JBool True), (''directories'', JArr [JStr directory])])\<rparr>"

definition reply_result :: "reply \<Rightarrow> error + json" where
  "reply_result rp =
     (case rp of
        Refused f \<Rightarrow> Inl (RequestRefused f)
      | NoResponse \<Rightarrow> Inl ConnectionError
      | Response r \<Rightarrow> (case raise_for_status r of Inl e \<Rightarrow> Inl e | Inr _ \<Rightarrow> response_json r))"

text \<open>
  The job IDs of the successfully created jobs, in submission order, read off the
  requests issued (the first of them being request number \<open>n\<close>): every POST whose reply
  makes \<open>create_cache_job\<close> return a result with a \<open>"jobId"\<close> contributes that ID. This
  definition follows the wording of the specification, not the code of the loop.
\<close>

fun created_job_ids :: "server \<Rightarrow> nat \<Rightarrow> request list \<Rightarrow> json list" where
  "created_job_ids srv n [] = []"
| "created_job_ids srv n (rq # rqs) =
     (if verb rq = POST
      then (case reply_result (srv n rq) of
              Inl e \<Rightarrow> []
            | Inr result \<Rightarrow> (case subscript result ''jobId'' of Inl e \<Rightarrow> [] | Inr job_id \<Rightarrow> [job_id]))
      else [])
     @ created_job_ids srv (Suc n) rqs"

text \<open>
  Three kinds of lines in the output of \<open>batch_cache_directories\<close>: the line that
  opens the pass for a directory, the line the \<open>except\<close> handler prints, and the last
  line of a pass that ends normally (\<open>Final status\<close> with monitoring, \<open>Size\<close> without).
\<close>

fun is_submitting_line :: "line \<Rightarrow> bool" where
  "is_submitting_line (Fmt t args) = (t = ''Submitting job for: {}'')"
| "is_submitting_line _ = False"

fun is_error_line :: "line \<Rightarrow> bool" where
  "is_error_line (ErrorLine t e) = True"
| "is_error_line _ = False"

fun is_final_line :: "bool \<Rightarrow> line \<Rightarrow> bool" where
  "is_final_line monitor (Fmt t args) = (t = (if monitor then ''  Final status: {}'' else ''  Size: {}''))"
| "is_final_line monitor _ = False"

subsection \<open>MetricsMonitor\<close>

text \<open>
  \<open>self.metrics\<close> is a dictionary with the two keys \<open>"lucidLink"\<close> and
  \<open>"s3Health"\<close>, both \<open>None\<close> at first.
\<close>

record metrics_dict =
  lucidLink :: json
  s3Health :: json

record MetricsMonitor =
  ws_url :: string
  metrics :: metrics_dict

definition MetricsMonitor_init :: "string \<Rightarrow> MetricsMonitor" where
  "MetricsMonitor_init u = \<lparr>ws_url = u, metrics = \<lparr>lucidLink = JNull, s3Health = JNull\<rparr>\<rparr>"

text \<open>
  The monitor object together with the lines printed so far and the values that the
  calls of \<open>time.time()\<close> have returned so far.
\<close>

record mstate =
  self :: MetricsMonitor
  console :: "line list"
  clock_reads :: "real list"

definition say :: "line \<Rightarrow> mstate \<Rightarrow> mstate" where
  "say l s = s\<lparr>console := console s @ [l]\<rparr>"

definition set_lucidLink :: "json \<Rightarrow> mstate \<Rightarrow> mstate" where
  "set_lucidLink v s = s\<lparr>self := (self s)\<lparr>metrics := (metrics (self s))\<lparr>lucidLink := v\<rparr>\<rparr>\<rparr>"

definition set_s3Health :: "json \<Rightarrow> mstate \<Rightarrow> mstate" where
  "set_s3Health v s = s\<lparr>self := (self s)\<lparr>metrics := (metrics (self s))\<lparr>s3Health := v\<rparr>\<rparr>\<rparr>"

text \<open>\<open>_display_metrics\<close>, in its two optional parts and as a whole.\<close>

definition display_lucidLink :: "mstate \<Rightarrow> (error + unit) \<times> mstate" where
  "display_lucidLink s =
     (let ll = lucidLink (metrics (self s))
      in if truthy ll
         then (case dict_get ll ''throughputMbps'' (JInt 0) of
                 Inl e \<Rightarrow> (Inl e, s)
               | Inr v \<Rightarrow>
                   (case format_2f v of
                      Inl e \<Rightarrow> (Inl e, s)
                    | Inr _ \<Rightarrow> (Inr (), say (Fmt ''LucidLink Throughput: {:.2f} MB/s'' [v]) s)))
         else (Inr (), s))"

definition display_s3Health :: "mstate \<Rightarrow> (error + unit) \<times> mstate" where
  "display_s3Health s =
     (let s3 = s3Health (metrics (self s))
      in if truthy s3
         then (case dict_get s3 ''isHealthy'' JNull of
                 Inl e \<Rightarrow> (Inl e, s)
               | Inr healthy \<Rightarrow>
                   (let s1 = say (Text (if truthy healthy then ''S3 Status: Healthy''
                                        else ''S3 Status: Unhealthy'')) s
                    in case dict_get s3 ''latency'' (JStr ''N/A'') of
                         Inl e \<Rightarrow> (Inl e, s1)
                       | Inr lat \<Rightarrow>
                           (let s2 = say (Fmt ''S3 Latency: {}ms'' [lat]) s1
                            in case dict_get s3 ''averageLatency'' (JStr ''N/A'') of
                                 Inl e \<Rightarrow> (Inl e, s2)
                               | Inr avg \<Rightarrow> (Inr (), say (Fmt ''S3 Avg Latency: {}ms'' [avg]) s2))))
         else (Inr (), s))"

definition display_metrics :: "string \<Rightarrow> mstate \<Rightarrow> (error + unit) \<times> mstate" where
  "display_metrics title s =
     (case display_lucidLink (say (Text (replicate 50 CHR ''-'')) (say (Fmt ''{}'' [JStr title]) s)) of
        (Inl e, s1) \<Rightarrow> (Inl e, s1)
      | (Inr _, s1) \<Rightarrow>
          (case display_s3Health s1 of
             (Inl e, s2) \<Rightarrow> (Inl e, s2)
           | (Inr _, s2) \<Rightarrow> (Inr (), say (Text (replicate 50 CHR ''-'')) s2)))"

text \<open>
  The statements of \<open>connect_and_monitor\<close> between \<open>data = json.loads(message)\<close> and
  the end of the \<open>try\<close>: the dispatch on \<open>data.get("type")\<close>. A value that is not a
  dictionary has no \<open>get\<close>. In each branch the assignments to \<open>self.metrics\<close> come
  first and the statements that can raise follow them.
\<close>

definition handle_lucidlink_stats :: "json \<Rightarrow> mstate \<Rightarrow> (error + unit) \<times> mstate" where
  "handle_lucidlink_stats data s =
     (case dict_get data ''lucidLink'' JNull of
        Inl e \<Rightarrow> (Inl e, s)
      | Inr ll \<Rightarrow>
          (let s1 = set_lucidLink ll s
           in case subscript2 data ''lucidLink'' ''throughputMbps'' of
                Inl e \<Rightarrow> (Inl e, s1)
              | Inr throughput \<Rightarrow>
                  (case format_2f throughput of
                     Inl e \<Rightarrow> (Inl e, s1)
                   | Inr _ \<Rightarrow> (Inr (), say (Fmt ''LucidLink: {:.2f} MB/s'' [throughput]) s1))))"

definition handle_s3_health :: "json \<Rightarrow> mstate \<Rightarrow> (error + unit) \<times> mstate" where
  "handle_s3_health data s =
     (case dict_get data ''s3Health'' JNull of
        Inl e \<Rightarrow> (Inl e, s)
      | Inr h \<Rightarrow>
          (let s1 = set_s3Health h s
           in case subscript data ''s3Health'' of
                Inl e \<Rightarrow> (Inl e, s1)
              | Inr health \<Rightarrow>
                  (case subscript health ''isHealthy'' of
                     Inl e \<Rightarrow> (Inl e, s1)
                   | Inr healthy \<Rightarrow>
                       (case subscript health ''latency'' of
                          Inl e \<Rightarrow> (Inl e, s1)
                        | Inr lat \<Rightarrow>
                            (case subscript health ''averageLatency'' of
                               Inl e \<Rightarrow> (Inl e, s1)
                             | Inr avg \<Rightarrow>
                                 (Inr (),
                                  say (Fmt ''S3 Health: {} Latency: {}ms (avg: {}ms)''
                                         [JBool (truthy healthy), lat, avg]) s1))))))"

definition handle_metrics :: "json \<Rightarrow> mstate \<Rightarrow> (error + unit) \<times> mstate" where
  "handle_metrics data s =
     (case dict_get data ''lucidLink'' JNull of
        Inl e \<Rightarrow> (Inl e, s)
      | Inr ll \<Rightarrow>
          (let s1 = set_lucidLink ll s
           in case dict_get data ''s3Health'' JNull of
                Inl e \<Rightarrow> (Inl e, s1)
              | Inr h \<Rightarrow> display_metrics ''Initial metrics received'' (set_s3Health h s1)))"

definition handle_message :: "json \<Rightarrow> mstate \<Rightarrow> (error + unit) \<times> mstate" where
  "handle_message data s =
     (case dict_get data ''type'' JNull of
        Inl e \<Rightarrow> (Inl e, s)
      | Inr ty \<Rightarrow>
          if ty = JStr ''metrics'' then handle_metrics data s
          else if ty = JStr ''lucidlink-stats'' then handle_lucidlink_stats data s
          else if ty = JStr ''s3-health'' then handle_s3_health data s
          else (Inr (), s))"

text \<open>
  What one \<open>await asyncio.wait_for(websocket.recv(), timeout=1.0)\<close> gives: a timeout,
  another exception, or a message together with what \<open>json.loads\<close> makes of it
  (\<open>None\<close> when it is not valid JSON). One pass of the loop meets one clock reading
  (the value \<open>time.time()\<close> has at the check) and one such event.
\<close>

datatype recv_event = RecvTimeout | RecvError error | RecvMessage "json option"

record tick =
  now :: real
  recv :: recv_event

text \<open>
  \<open>duration and (time.time() - start_time) > duration\<close>: \<open>None\<close> and \<open>0\<close> are false
  and end the test there, before the clock is read; for any other duration the clock is
  read and the comparison made. \<open>read_clock\<close> records the reading when there is one,
  \<open>duration_elapsed\<close> is the value of the test.
\<close>

definition read_clock :: "int option \<Rightarrow> real \<Rightarrow> mstate \<Rightarrow> mstate" where
  "read_clock duration t s =
     (case duration of
        None \<Rightarrow> s
      | Some d \<Rightarrow> if d = 0 then s else s\<lparr>clock_reads := clock_reads s @ [t]\<rparr>)"

definition duration_elapsed :: "int option \<Rightarrow> real \<Rightarrow> real \<Rightarrow> bool" where
  "duration_elapsed duration start_time t =
     (case duration of
        None \<Rightarrow> False
      | Some d \<Rightarrow> d \<noteq> 0 \<and> t - start_time > real_of_int d)"

text \<open>
  The \<open>while True\<close> loop of \<open>connect_and_monitor\<close>, run against the list of passes the
  environment offers. \<open>Exited s\<close>: the loop has left by \<open>break\<close> in state \<open>s\<close>;
  \<open>Running s\<close>: the list is used up and the loop is still running, in state \<open>s\<close>.
\<close>

datatype run = Exited mstate | Running mstate

fun monitor_loop :: "int option \<Rightarrow> real \<Rightarrow> tick list \<Rightarrow> mstate \<Rightarrow> run" where
  "monitor_loop duration start_time [] s = Running s"
| "monitor_loop duration start_time (t # rest) s =
     (if duration_elapsed duration start_time (now t)
      then Exited (read_clock duration (now t) s)
      else (case recv t of
              RecvTimeout \<Rightarrow> monitor_loop duration start_time rest (read_clock duration (now t) s)
            | RecvError e \<Rightarrow>
                monitor_loop duration start_time rest
                  (say (ErrorLine ''Error: {}'' e) (read_clock duration (now t) s))
            | RecvMessage None \<Rightarrow>
                monitor_loop duration start_time rest
                  (say (ErrorLine ''Error: {}'' JSONDecodeError) (read_clock duration (now t) s))
            | RecvMessage (Some data) \<Rightarrow>
                (case handle_message data (read_clock duration (now t) s) of
                   (Inl e, s') \<Rightarrow> monitor_loop duration start_time rest (say (ErrorLine ''Error: {}'' e) s')
                 | (Inr _, s') \<Rightarrow> monitor_loop duration start_time rest s')))"

text \<open>
  \<open>connect_and_monitor\<close>: the clock is read, the socket is opened (which may raise),
  a line is printed and the loop runs. The first component of the result is how the
  call ended: \<open>Some (Inl e)\<close> raised, \<open>Some (Inr ())\<close> returned, \<open>None\<close> still running.
\<close>

record ws_env =
  clock_start :: real
  connect_error :: "error option"
  passes :: "tick list"

definition connect_and_monitor :: "ws_env \<Rightarrow> int option \<Rightarrow> mstate \<Rightarrow> (error + unit) option \<times> mstate" where
  "connect_and_monitor env duration s =
     (let s0 = s\<lparr>clock_reads := clock_reads s @ [clock_start env]\<rparr>
      in case connect_error env of
           Some e \<Rightarrow> (Some (Inl e), s0)
         | None \<Rightarrow>
             (case monitor_loop duration (clock_start env) (passes env)
                     (say (Fmt ''Connected to metrics WebSocket: {}'' [JStr (ws_url (self s0))]) s0) of
                Exited s' \<Rightarrow> (Some (Inr ()), s')
              | Running s' \<Rightarrow> (None, s')))"

section \<open>Properties\<close>

subsection \<open>Sending a request and checking the response\<close>

lemma http_send_fst:
  "fst (http_send srv rq w) =
     (case srv (length (issued w)) rq of
        Refused f \<Rightarrow> Inl (RequestRefused f)
      | NoResponse \<Rightarrow> Inl ConnectionError
      | Response r \<Rightarrow> Inr r)"
  by (simp add: http_send_def split: reply.splits)

lemma http_send_issued: "issued (snd (http_send srv rq w)) = issued w @ [rq]"
  by (simp add: http_send_def split: reply.splits)

lemma http_send_sent:
  "sent (snd (http_send srv rq w)) =
     (case srv (length (issued w)) rq of Refused f \<Rightarrow> sent w | _ \<Rightarrow> sent w @ [rq])"
  by (simp add: http_send_def split: reply.splits)

lemma http_send_out: "out (snd (http_send srv rq w)) = out w"
  by (simp add: http_send_def split: reply.splits)

lemma checked_json_fst:
  "fst (checked_json res) =
     (case fst res of
        Inl e \<Rightarrow> Inl e
      | Inr r \<Rightarrow>
          if 400 \<le> status_code r \<and> status_code r < 600 then Inl (HTTPError (status_code r))
          else (case body r of None \<Rightarrow> Inl JSONDecodeError | Some j \<Rightarrow> Inr j))"
  by (cases res)
     (auto simp: checked_json_def raise_for_status_def response_json_def split: sum.splits)

lemma checked_json_snd: "snd (checked_json res) = snd res"
  by (cases res) (auto simp: checked_json_def split: sum.splits)


subsection \<open>The authentication header\<close>

text \<open>
  The five operations that go through \<open>self.session\<close> hand the library a request with
  the header \<open>X-API-Key\<close> holding the key given at construction, whatever the key is.
\<close>

lemma session_requests_carry_api_key:
  fixes srv :: server
  defines "hdr \<equiv> (\<lambda>w'. map_of (headers (last (issued w'))) ''X-API-Key'')"
  shows "hdr (snd (health_check srv (TeamCacheClient_init u key) w)) = Some key"
    and "truthy_opt files \<or> truthy_opt directories \<Longrightarrow>
         hdr (snd (create_cache_job srv (TeamCacheClient_init u key) files directories recursive w))
           = Some key"
    and "hdr (snd (get_job_status srv (TeamCacheClient_init u key) job_id w)) = Some key"
    and "hdr (snd (list_jobs srv (TeamCacheClient_init u key) page limit status w)) = Some key"
    and "hdr (snd (cancel_job srv (TeamCacheClient_init u key) job_id w)) = Some key"
  unfolding hdr_def
  by (auto simp: health_check_def create_cache_job_def get_job_status_def list_jobs_def
        cancel_job_def session_get_def session_post_def session_delete_def checked_json_snd
        http_send_issued TeamCacheClient_init_def)

text \<open>
  Claim C1: every request of a TeamCacheClient carries \<open>X-API-Key\<close> with the key given
  at construction, for each of the seven operations. The code does otherwise for
  \<open>get_metrics\<close> and \<open>get_s3_metrics\<close>: they call the module-level \<open>requests.get\<close>
  instead of \<open>self.session.get\<close>, so on the default client the one request each of them
  issues has no header set by the client, and no \<open>X-API-Key\<close> among them.
\<close>

theorem get_metrics_sends_no_api_key:
  "issued (snd (get_metrics srv (TeamCacheClient_init ''http://localhost:8095'' ''demo-api-key-2024'')
                \<lparr>issued = [], sent = [], out = []\<rparr>))
     = [\<lparr>verb = GET, url = ''http://localhost:8095/api/v1/metrics'', headers = [],
         params = None, json_body = None\<rparr>]
   \<and> issued (snd (get_s3_metrics srv (TeamCacheClient_init ''http://localhost:8095'' ''demo-api-key-2024'')
                  \<lparr>issued = [], sent = [], out = []\<rparr>))
     = [\<lparr>verb = GET, url = ''http://localhost:8095/api/v1/metrics/s3'', headers = [],
         params = None, json_body = None\<rparr>]
   \<and> map (\<lambda>rq. map_of (headers rq) ''X-API-Key'')
         (issued (snd (get_metrics srv (TeamCacheClient_init ''http://localhost:8095'' ''demo-api-key-2024'')
                       \<lparr>issued = [], sent = [], out = []\<rparr>)))
     = [None]"
  by (simp add: get_metrics_def get_s3_metrics_def requests_get_def checked_json_snd
        http_send_issued TeamCacheClient_init_def rstrip_def)

subsection \<open>create_cache_job\<close>




text \<open>
  Claim C10: an empty list counts as an absent argument. With \<open>files\<close> and
  \<open>directories\<close> both empty, or one empty and the other absent, the ValueError is raised
  and nothing is sent; and whenever a request is sent, its JSON body is a dictionary
  that has the key \<open>"files"\<close> exactly when \<open>files\<close> is a non-empty list, the key
  \<open>"directories"\<close> exactly when \<open>directories\<close> is one, and always the key
  \<open>"recursive"\<close>, holding the flag.
\<close>

theorem create_cache_job_empty_is_absent:
  "create_cache_job srv c (Some []) (Some []) recursive w
     = (Inl (ValueError ''Must provide either files or directories''), w)
   \<and> create_cache_job srv c (Some []) None recursive w
     = (Inl (ValueError ''Must provide either files or directories''), w)
   \<and> create_cache_job srv c None (Some []) recursive w
     = (Inl (ValueError ''Must provide either files or directories''), w)
   \<and> (\<forall>rq. sent (snd (create_cache_job srv c files directories recursive w)) = sent w @ [rq] \<longrightarrow>
         (\<exists>kvs. json_body rq = Some (JObj kvs)
            \<and> (''files'' \<in> fst ` set kvs \<longleftrightarrow> (\<exists>fs. files = Some fs \<and> fs \<noteq> []))
            \<and> (''directories'' \<in> fst ` set kvs \<longleftrightarrow> (\<exists>ds. directories = Some ds \<and> ds \<noteq> []))
            \<and> map_of kvs ''recursive'' = Some (JBool recursive)))"
  by (cases files; cases directories)
     (auto simp: create_cache_job_def session_post_def checked_json_snd http_send_sent
        create_cache_job_data_def split: reply.splits)

theorem create_cache_job_empty_is_absent_witness:
  "sent (snd (create_cache_job (\<lambda>n rq. Response \<lparr>status_code = 200, body = Some (JObj [])\<rparr>)
                (TeamCacheClient_init ''http://localhost:8095/'' ''key'')
                (Some [''a.mov'']) (Some []) False \<lparr>issued = [], sent = [], out = []\<rparr>))
     = [] @ [\<lparr>verb = POST, url = ''http://localhost:8095/api/v1/cache/jobs'',
          headers = [(''X-API-Key'', ''key''), (''Content-Type'', ''application/json'')],
          params = None,
          json_body = Some (JObj [(''recursive'', JBool False), (''files'', JArr [JStr ''a.mov''])])\<rparr>]
   \<and> (\<exists>kvs. Some (JObj [(''recursive'', JBool False), (''files'', JArr [JStr ''a.mov''])])
                = Some (JObj kvs)
         \<and> ''files'' \<in> fst ` set kvs \<and> ''directories'' \<notin> fst ` set kvs
         \<and> map_of kvs ''recursive'' = Some (JBool False))"
  using create_cache_job_empty_is_absent
    [of "\<lambda>n rq. Response \<lparr>status_code = 200, body = Some (JObj [])\<rparr>"
        "TeamCacheClient_init ''http://localhost:8095/'' ''key''" False
        "\<lparr>issued = [], sent = [], out = []\<rparr>" "Some [''a.mov'']" "Some []"]
  by (simp add: create_cache_job_def session_post_def checked_json_snd http_send_sent
        create_cache_job_data_def TeamCacheClient_init_def rstrip_def)

subsection \<open>list_jobs\<close>

text \<open>
  Claim C6 says that the query parameters include the status filter exactly when a
  status is provided. The test in the code is \<open>if status:\<close>, which the empty string
  fails: \<open>list_jobs(1, 10, "")\<close> is given a status, and the parameters sent are
  \<open>page\<close> and \<open>limit\<close> alone.
\<close>

theorem list_jobs_empty_status_counterexample:
  "Some '''' \<noteq> (None :: string option)
   \<and> sent (snd (list_jobs (\<lambda>n rq. Response \<lparr>status_code = 200, body = Some (JObj [])\<rparr>)
                  (TeamCacheClient_init ''http://localhost:8095'' ''key'')
                  1 10 (Some '''') \<lparr>issued = [], sent = [], out = []\<rparr>))
     = [\<lparr>verb = GET, url = ''http://localhost:8095/api/v1/cache/jobs'',
         headers = [(''X-API-Key'', ''key''), (''Content-Type'', ''application/json'')],
         params = Some [(''page'', JInt 1), (''limit'', JInt 10)], json_body = None\<rparr>]
   \<and> map_of [(''page'', JInt 1), (''limit'', JInt 10)] ''status'' = None"
  by (simp add: list_jobs_def list_jobs_params_def session_get_def checked_json_snd http_send_sent
        TeamCacheClient_init_def rstrip_def)

text \<open>
  Claim C6 as amended: for every page, limit and status, \<open>list_jobs\<close> hands the session
  one GET request to \<open>/api/v1/cache/jobs\<close>, which is sent unless the library refuses
  it, and whose query parameters hold \<open>page\<close> and \<open>limit\<close> with the given values, hold
  \<open>status\<close> exactly when the status is a non-empty string (then with that string), and
  hold no other key; with status \<open>None\<close> or the empty string the key \<open>status\<close> is
  absent.
\<close>

theorem list_jobs_query_parameters:
  "\<exists>ps. issued (snd (list_jobs srv c page limit status w))
          = issued w @ [\<lparr>verb = GET, url = api_url c @ ''/api/v1/cache/jobs'',
                          headers = session_headers c, params = Some ps, json_body = None\<rparr>]
      \<and> ((\<forall>f. srv (length (issued w))
                  \<lparr>verb = GET, url = api_url c @ ''/api/v1/cache/jobs'',
                   headers = session_headers c, params = Some ps, json_body = None\<rparr> \<noteq> Refused f) \<longrightarrow>
           sent (snd (list_jobs srv c page limit status w))
             = sent w @ [\<lparr>verb = GET, url = api_url c @ ''/api/v1/cache/jobs'',
                           headers = session_headers c, params = Some ps, json_body = None\<rparr>])
      \<and> map_of ps ''page'' = Some (JInt page)
      \<and> map_of ps ''limit'' = Some (JInt limit)
      \<and> map_of ps ''status'' = (case status of None \<Rightarrow> None
                                 | Some s \<Rightarrow> if s = [] then None else Some (JStr s))
      \<and> fst ` set ps \<subseteq> {''page'', ''limit'', ''status''}"
  by (cases status)
     (auto simp: list_jobs_def list_jobs_params_def session_get_def checked_json_snd
        http_send_issued http_send_sent split: reply.splits)

theorem list_jobs_query_parameters_witness:
  "\<exists>ps. sent (snd (list_jobs (\<lambda>n rq. Response \<lparr>status_code = 200, body = Some (JObj [])\<rparr>)
                      (TeamCacheClient_init ''http://localhost:8095'' ''key'')
                      2 5 (Some ''running'') \<lparr>issued = [], sent = [], out = []\<rparr>))
          = [\<lparr>verb = GET, url = ''http://localhost:8095/api/v1/cache/jobs'',
              headers = [(''X-API-Key'', ''key''), (''Content-Type'', ''application/json'')],
              params = Some ps, json_body = None\<rparr>]
      \<and> map_of ps ''page'' = Some (JInt 2)
      \<and> map_of ps ''limit'' = Some (JInt 5)
      \<and> map_of ps ''status'' = Some (JStr ''running'')"
  using list_jobs_query_parameters
    [of "\<lambda>n rq. Response \<lparr>status_code = 200, body = Some (JObj [])\<rparr>"
        "TeamCacheClient_init ''http://localhost:8095'' ''key''" 2 5
        "Some ''running''" "\<lparr>issued = [], sent = [], out = []\<rparr>"]
  by (auto simp: TeamCacheClient_init_def rstrip_def)

subsection \<open>HTTP failure statuses\<close>

lemmas operation_defs =
  health_check_def create_cache_job_def get_job_status_def list_jobs_def cancel_job_def
  get_metrics_def get_s3_metrics_def session_get_def session_post_def session_delete_def
  requests_get_def

text \<open>
  Claim C4: let \<open>r\<close> be the response to the request an operation issues
  (\<open>create_cache_job\<close> issues one when one of its lists is non-empty). If the status of
  \<open>r\<close> is a failure status, 400 to 599, each of the seven operations raises (HTTPError)
  and returns no value; if it is not, so in particular if it is a success status 2xx,
  and the body parses as JSON to \<open>j\<close>, each operation returns \<open>j\<close>.
\<close>

theorem operations_follow_http_status:
  assumes reply: "\<And>rq. srv (length (issued w)) rq = Response r"
      and given: "truthy_opt files \<or> truthy_opt directories"
  shows "(400 \<le> status_code r \<and> status_code r < 600 \<longrightarrow>
            (\<forall>res \<in> set [fst (health_check srv c w),
                           fst (create_cache_job srv c files directories recursive w),
                           fst (get_job_status srv c job_id w),
                           fst (list_jobs srv c page limit status w),
                           fst (cancel_job srv c job_id w),
                           fst (get_metrics srv c w),
                           fst (get_s3_metrics srv c w)].
               res = Inl (HTTPError (status_code r))))
       \<and> (\<not> (400 \<le> status_code r \<and> status_code r < 600) \<and> body r = Some j \<longrightarrow>
            (\<forall>res \<in> set [fst (health_check srv c w),
                           fst (create_cache_job srv c files directories recursive w),
                           fst (get_job_status srv c job_id w),
                           fst (list_jobs srv c page limit status w),
                           fst (cancel_job srv c job_id w),
                           fst (get_metrics srv c w),
                           fst (get_s3_metrics srv c w)].
               res = Inr j))"
  using given by (auto simp: operation_defs checked_json_fst http_send_fst reply)

theorem operations_follow_http_status_witness:
  "(\<forall>rq. (\<lambda>n rq. Response \<lparr>status_code = 404, body = Some (JObj [(''error'', JStr ''Job not found'')])\<rparr>)
            (length (issued \<lparr>issued = [], sent = [], out = []\<rparr>)) rq
          = Response \<lparr>status_code = 404, body = Some (JObj [(''error'', JStr ''Job not found'')])\<rparr>)
   \<and> truthy_opt (Some [''a.mov''])
   \<and> fst (cancel_job (\<lambda>n rq. Response \<lparr>status_code = 404, body = Some (JObj [(''error'', JStr ''Job not found'')])\<rparr>)
             (TeamCacheClient_init ''http://localhost:8095'' ''key'') ''job-1''
             \<lparr>issued = [], sent = [], out = []\<rparr>)
       = Inl (HTTPError 404)
   \<and> fst (get_metrics (\<lambda>n rq. Response \<lparr>status_code = 404, body = Some (JObj [(''error'', JStr ''Job not found'')])\<rparr>)
             (TeamCacheClient_init ''http://localhost:8095'' ''key'')
             \<lparr>issued = [], sent = [], out = []\<rparr>)
       = Inl (HTTPError 404)
   \<and> fst (health_check (\<lambda>n rq. Response \<lparr>status_code = 200, body = Some (JObj [(''status'', JStr ''healthy'')])\<rparr>)
             (TeamCacheClient_init ''http://localhost:8095'' ''key'')
             \<lparr>issued = [], sent = [], out = []\<rparr>)
       = Inr (JObj [(''status'', JStr ''healthy'')])
   \<and> fst (create_cache_job (\<lambda>n rq. Response \<lparr>status_code = 200, body = Some (JObj [(''status'', JStr ''healthy'')])\<rparr>)
             (TeamCacheClient_init ''http://localhost:8095'' ''key'') (Some [''a.mov'']) None True
             \<lparr>issued = [], sent = [], out = []\<rparr>)
       = Inr (JObj [(''status'', JStr ''healthy'')])"
  using operations_follow_http_status
    [of "\<lambda>n rq. Response \<lparr>status_code = 404, body = Some (JObj [(''error'', JStr ''Job not found'')])\<rparr>"
        "\<lparr>issued = [], sent = [], out = []\<rparr>"
        "\<lparr>status_code = 404, body = Some (JObj [(''error'', JStr ''Job not found'')])\<rparr>"
        "Some [''a.mov'']" None
        "TeamCacheClient_init ''http://localhost:8095'' ''key''" True "''job-1''" 1 10 None
        "JObj [(''error'', JStr ''Job not found'')]"]
    operations_follow_http_status
    [of "\<lambda>n rq. Response \<lparr>status_code = 200, body = Some (JObj [(''status'', JStr ''healthy'')])\<rparr>"
        "\<lparr>issued = [], sent = [], out = []\<rparr>"
        "\<lparr>status_code = 200, body = Some (JObj [(''status'', JStr ''healthy'')])\<rparr>"
        "Some [''a.mov'']" None
        "TeamCacheClient_init ''http://localhost:8095'' ''key''" True "''job-1''" 1 10 None
        "JObj [(''status'', JStr ''healthy'')]"]
  by simp

subsection \<open>The streaming-metrics handler\<close>

lemma self_say [simp]: "self (say l s) = self s"
  by (simp add: say_def)

lemma metrics_set_lucidLink [simp]:
  "metrics (self (set_lucidLink v s)) = (metrics (self s))\<lparr>lucidLink := v\<rparr>"
  by (simp add: set_lucidLink_def)

lemma metrics_set_s3Health [simp]:
  "metrics (self (set_s3Health v s)) = (metrics (self s))\<lparr>s3Health := v\<rparr>"
  by (simp add: set_s3Health_def)

lemma self_display_lucidLink: "self (snd (display_lucidLink s)) = self s"
  by (simp add: display_lucidLink_def Let_def split: sum.splits)

lemma self_display_s3Health: "self (snd (display_s3Health s)) = self s"
  by (simp add: display_s3Health_def Let_def split: sum.splits)

lemma self_display_metrics: "self (snd (display_metrics title s)) = self s"
proof -
  obtain r1 s1 where d1: "display_lucidLink (say (Text (replicate 50 CHR ''-'')) (say (Fmt ''{}'' [JStr title]) s)) = (r1, s1)"
    by (cases "display_lucidLink (say (Text (replicate 50 CHR ''-'')) (say (Fmt ''{}'' [JStr title]) s))")
  obtain r2 s2 where d2: "display_s3Health s1 = (r2, s2)"
    by (cases "display_s3Health s1")
  have "self s1 = self s"
    using self_display_lucidLink [of "say (Text (replicate 50 CHR ''-'')) (say (Fmt ''{}'' [JStr title]) s)"] d1
    by simp
  moreover have "self s2 = self s1"
    using self_display_s3Health [of s1] d2 by simp
  ultimately show ?thesis
    by (simp add: display_metrics_def d1 d2 split: sum.splits)
qed

lemma metrics_handle_metrics:
  "metrics (self (snd (handle_metrics (JObj kvs) s)))
     = \<lparr>lucidLink = (case map_of kvs ''lucidLink'' of Some v \<Rightarrow> v | None \<Rightarrow> JNull),
        s3Health = (case map_of kvs ''s3Health'' of Some v \<Rightarrow> v | None \<Rightarrow> JNull)\<rparr>"
  by (simp add: handle_metrics_def Let_def self_display_metrics)

lemma metrics_handle_lucidlink_stats:
  "metrics (self (snd (handle_lucidlink_stats (JObj kvs) s)))
     = (metrics (self s))\<lparr>lucidLink := (case map_of kvs ''lucidLink'' of Some v \<Rightarrow> v | None \<Rightarrow> JNull)\<rparr>"
  by (simp add: handle_lucidlink_stats_def Let_def split: sum.splits)

lemma metrics_handle_s3_health:
  "metrics (self (snd (handle_s3_health (JObj kvs) s)))
     = (metrics (self s))\<lparr>s3Health := (case map_of kvs ''s3Health'' of Some v \<Rightarrow> v | None \<Rightarrow> JNull)\<rparr>"
  by (simp add: handle_s3_health_def Let_def split: sum.splits option.splits)

text \<open>
  Claim C7: the handler dispatches on the value under \<open>"type"\<close> and changes only the
  fields the message carries. With \<open>m\<close> the stored metrics before and \<open>data.get(k)\<close>
  the value the message has under \<open>k\<close> (\<open>None\<close> when it has none): a \<open>"metrics"\<close>
  message stores \<open>data.get("lucidLink")\<close> and \<open>data.get("s3Health")\<close>; a
  \<open>"lucidlink-stats"\<close> message stores \<open>data.get("lucidLink")\<close> and leaves \<open>s3Health\<close>
  as it was; an \<open>"s3-health"\<close> message stores \<open>data.get("s3Health")\<close> and leaves
  \<open>lucidLink\<close> as it was; a message with any other type, or none, and a message that is
  not a dictionary, leave both fields as they were. This holds whether or not the
  printing that follows the assignments raises.
\<close>

theorem handle_message_updates_carried_fields:
  "(map_of kvs ''type'' = Some (JStr ''metrics'') \<longrightarrow>
      metrics (self (snd (handle_message (JObj kvs) s)))
        = \<lparr>lucidLink = (case map_of kvs ''lucidLink'' of Some v \<Rightarrow> v | None \<Rightarrow> JNull),
           s3Health = (case map_of kvs ''s3Health'' of Some v \<Rightarrow> v | None \<Rightarrow> JNull)\<rparr>)
   \<and> (map_of kvs ''type'' = Some (JStr ''lucidlink-stats'') \<longrightarrow>
      metrics (self (snd (handle_message (JObj kvs) s)))
        = (metrics (self s))\<lparr>lucidLink := (case map_of kvs ''lucidLink'' of Some v \<Rightarrow> v | None \<Rightarrow> JNull)\<rparr>)
   \<and> (map_of kvs ''type'' = Some (JStr ''s3-health'') \<longrightarrow>
      metrics (self (snd (handle_message (JObj kvs) s)))
        = (metrics (self s))\<lparr>s3Health := (case map_of kvs ''s3Health'' of Some v \<Rightarrow> v | None \<Rightarrow> JNull)\<rparr>)
   \<and> (map_of kvs ''type'' \<noteq> Some (JStr ''metrics'')
        \<and> map_of kvs ''type'' \<noteq> Some (JStr ''lucidlink-stats'')
        \<and> map_of kvs ''type'' \<noteq> Some (JStr ''s3-health'') \<longrightarrow>
      metrics (self (snd (handle_message (JObj kvs) s))) = metrics (self s))
   \<and> ((\<forall>d. data \<noteq> JObj d) \<longrightarrow> metrics (self (snd (handle_message data s))) = metrics (self s))"
  by (cases data)
     (auto simp: handle_message_def metrics_handle_metrics metrics_handle_lucidlink_stats
        metrics_handle_s3_health split: option.splits)

theorem handle_message_updates_carried_fields_witness:
  "metrics (self (snd (handle_message
       (JObj [(''type'', JStr ''lucidlink-stats''), (''lucidLink'', JObj [(''throughputMbps'', JFloat 12.5)])])
       \<lparr>self = \<lparr>ws_url = ''ws://localhost:8095/ws'',
                 metrics = \<lparr>lucidLink = JNull, s3Health = JObj [(''isHealthy'', JBool True)]\<rparr>\<rparr>,
         console = [], clock_reads = []\<rparr>)))
     = \<lparr>lucidLink = JObj [(''throughputMbps'', JFloat 12.5)], s3Health = JObj [(''isHealthy'', JBool True)]\<rparr>
   \<and> metrics (self (snd (handle_message
       (JObj [(''type'', JStr ''s3-health''), (''s3Health'', JObj [(''isHealthy'', JBool False)])])
       \<lparr>self = \<lparr>ws_url = ''ws://localhost:8095/ws'',
                 metrics = \<lparr>lucidLink = JInt 7, s3Health = JNull\<rparr>\<rparr>,
         console = [], clock_reads = []\<rparr>)))
     = \<lparr>lucidLink = JInt 7, s3Health = JObj [(''isHealthy'', JBool False)]\<rparr>
   \<and> metrics (self (snd (handle_message
       (JObj [(''type'', JStr ''metrics''), (''lucidLink'', JInt 1)])
       \<lparr>self = \<lparr>ws_url = ''ws://localhost:8095/ws'',
                 metrics = \<lparr>lucidLink = JInt 7, s3Health = JInt 8\<rparr>\<rparr>,
         console = [], clock_reads = []\<rparr>)))
     = \<lparr>lucidLink = JInt 1, s3Health = JNull\<rparr>
   \<and> metrics (self (snd (handle_message
       (JObj [(''type'', JStr ''pong''), (''lucidLink'', JInt 1)])
       \<lparr>self = \<lparr>ws_url = ''ws://localhost:8095/ws'',
                 metrics = \<lparr>lucidLink = JInt 7, s3Health = JInt 8\<rparr>\<rparr>,
         console = [], clock_reads = []\<rparr>)))
     = \<lparr>lucidLink = JInt 7, s3Health = JInt 8\<rparr>
   \<and> metrics (self (snd (handle_message
       (JArr [JStr ''metrics''])
       \<lparr>self = \<lparr>ws_url = ''ws://localhost:8095/ws'',
                 metrics = \<lparr>lucidLink = JInt 7, s3Health = JInt 8\<rparr>\<rparr>,
         console = [], clock_reads = []\<rparr>)))
     = \<lparr>lucidLink = JInt 7, s3Health = JInt 8\<rparr>"
  using
    handle_message_updates_carried_fields
      [of "[(''type'', JStr ''lucidlink-stats''), (''lucidLink'', JObj [(''throughputMbps'', JFloat 12.5)])]"
          "\<lparr>self = \<lparr>ws_url = ''ws://localhost:8095/ws'',
                 metrics = \<lparr>lucidLink = JNull, s3Health = JObj [(''isHealthy'', JBool True)]\<rparr>\<rparr>,
            console = [], clock_reads = []\<rparr>" JNull]
    handle_message_updates_carried_fields
      [of "[(''type'', JStr ''s3-health''), (''s3Health'', JObj [(''isHealthy'', JBool False)])]"
          "\<lparr>self = \<lparr>ws_url = ''ws://localhost:8095/ws'',
                 metrics = \<lparr>lucidLink = JInt 7, s3Health = JNull\<rparr>\<rparr>,
            console = [], clock_reads = []\<rparr>" JNull]
    handle_message_updates_carried_fields
      [of "[(''type'', JStr ''metrics''), (''lucidLink'', JInt 1)]"
          "\<lparr>self = \<lparr>ws_url = ''ws://localhost:8095/ws'',
                 metrics = \<lparr>lucidLink = JInt 7, s3Health = JInt 8\<rparr>\<rparr>,
            console = [], clock_reads = []\<rparr>" JNull]
    handle_message_updates_carried_fields
      [of "[(''type'', JStr ''pong''), (''lucidLink'', JInt 1)]"
          "\<lparr>self = \<lparr>ws_url = ''ws://localhost:8095/ws'',
                 metrics = \<lparr>lucidLink = JInt 7, s3Health = JInt 8\<rparr>\<rparr>,
            console = [], clock_reads = []\<rparr>" "JArr [JStr ''metrics'']"]
  by simp

subsection \<open>The monitoring loop\<close>

lemma duration_elapsed_None [simp]: "duration_elapsed None st t = False"
  by (simp add: duration_elapsed_def)

lemma duration_elapsed_zero [simp]: "duration_elapsed (Some 0) st t = False"
  by (simp add: duration_elapsed_def)

lemma read_clock_None [simp]: "read_clock None t s = s"
  by (simp add: read_clock_def)

lemma read_clock_zero [simp]: "read_clock (Some 0) t s = s"
  by (simp add: read_clock_def)

lemma clock_reads_say [simp]: "clock_reads (say l s) = clock_reads s"
  by (simp add: say_def)

lemma clock_reads_set_lucidLink [simp]: "clock_reads (set_lucidLink v s) = clock_reads s"
  by (simp add: set_lucidLink_def)

lemma clock_reads_set_s3Health [simp]: "clock_reads (set_s3Health v s) = clock_reads s"
  by (simp add: set_s3Health_def)

lemma clock_reads_display_lucidLink: "clock_reads (snd (display_lucidLink s)) = clock_reads s"
  by (simp add: display_lucidLink_def Let_def split: sum.splits)

lemma clock_reads_display_s3Health: "clock_reads (snd (display_s3Health s)) = clock_reads s"
  by (simp add: display_s3Health_def Let_def split: sum.splits)

lemma clock_reads_display_metrics: "clock_reads (snd (display_metrics title s)) = clock_reads s"
proof -
  obtain r1 s1 where d1: "display_lucidLink (say (Text (replicate 50 CHR ''-'')) (say (Fmt ''{}'' [JStr title]) s)) = (r1, s1)"
    by (cases "display_lucidLink (say (Text (replicate 50 CHR ''-'')) (say (Fmt ''{}'' [JStr title]) s))")
  obtain r2 s2 where d2: "display_s3Health s1 = (r2, s2)"
    by (cases "display_s3Health s1")
  have "clock_reads s1 = clock_reads s"
    using clock_reads_display_lucidLink [of "say (Text (replicate 50 CHR ''-'')) (say (Fmt ''{}'' [JStr title]) s)"] d1
    by simp
  moreover have "clock_reads s2 = clock_reads s1"
    using clock_reads_display_s3Health [of s1] d2 by simp
  ultimately show ?thesis
    by (simp add: display_metrics_def d1 d2 split: sum.splits)
qed

lemma clock_reads_handle_message: "clock_reads (snd (handle_message data s)) = clock_reads s"
  by (cases data)
     (simp_all add: handle_message_def handle_metrics_def handle_lucidlink_stats_def
        handle_s3_health_def Let_def clock_reads_display_metrics split: sum.splits option.splits)

lemma monitor_loop_skips_clock:
  assumes "d = None \<or> d = Some 0"
  shows "\<exists>s'. monitor_loop d st ps s = Running s' \<and> clock_reads s' = clock_reads s"
proof (induction ps arbitrary: s)
  case Nil
  show ?case by simp
next
  case (Cons t ps)
  have d: "duration_elapsed d st (now t) = False" "read_clock d (now t) = (\<lambda>s. s)"
    using assms by auto
  show ?case
  proof (cases "recv t")
    case RecvTimeout
    then show ?thesis using Cons.IH [of s] by (simp add: d)
  next
    case (RecvError e)
    then show ?thesis using Cons.IH [of "say (ErrorLine ''Error: {}'' e) s"] by (simp add: d)
  next
    case (RecvMessage m)
    show ?thesis
    proof (cases m)
      case None
      then show ?thesis
        using RecvMessage Cons.IH [of "say (ErrorLine ''Error: {}'' JSONDecodeError) s"]
        by (simp add: d)
    next
      case (Some data)
      obtain r s1 where h: "handle_message data s = (r, s1)"
        by (cases "handle_message data s")
      have s1: "clock_reads s1 = clock_reads s"
        using clock_reads_handle_message [of data s] h by simp
      show ?thesis
      proof (cases r)
        case (Inl e)
        then show ?thesis
          using RecvMessage Some h s1 Cons.IH [of "say (ErrorLine ''Error: {}'' e) s1"]
          by (simp add: d)
      next
        case (Inr u)
        then show ?thesis
          using RecvMessage Some h s1 Cons.IH [of s1] by (simp add: d)
      qed
    qed
  qed
qed

lemma monitor_loop_zero_is_None: "monitor_loop (Some 0) st ps s = monitor_loop None st ps s"
  by (induction ps arbitrary: s)
     (auto split: recv_event.splits option.splits sum.splits prod.splits)

lemma monitor_loop_exit:
  "monitor_loop d st ps s = Exited s' \<Longrightarrow> \<exists>t \<in> set ps. duration_elapsed d st (now t)"
  by (induction ps arbitrary: s)
     (auto split: if_splits recv_event.splits option.splits sum.splits prod.splits)

lemma monitor_loop_continues:
  "\<not> duration_elapsed d st (now t) \<Longrightarrow>
   \<exists>s1. monitor_loop d st (t # rest) s = monitor_loop d st rest s1
        \<and> (recv t = RecvTimeout \<longrightarrow> s1 = read_clock d (now t) s)
        \<and> (\<forall>e. recv t = RecvError e \<longrightarrow> s1 = say (ErrorLine ''Error: {}'' e) (read_clock d (now t) s))"
  by (auto split: recv_event.splits option.splits sum.splits prod.splits)

text \<open>
  Claim C8 ends with: the loop exits only when a positive duration has elapsed. The
  check is \<open>duration and elapsed > duration\<close>, and a negative duration can pass it:
  with duration \<open>-1\<close> and no time elapsed the loop leaves at its first check.
\<close>

theorem monitor_loop_exits_on_negative_duration:
  "monitor_loop (Some (- 1)) 100 [\<lparr>now = 100, recv = RecvTimeout\<rparr>]
       \<lparr>self = MetricsMonitor_init ''ws://localhost:8095/ws'', console = [], clock_reads = []\<rparr>
     = Exited \<lparr>self = MetricsMonitor_init ''ws://localhost:8095/ws'', console = [],
               clock_reads = [100]\<rparr>
   \<and> \<not> (0 :: int) < - 1"
  by (simp add: duration_elapsed_def read_clock_def)

text \<open>
  Claim C8 as amended: a pass of the loop whose duration check does not fire always leads
  to the next pass, whatever the receive gives: after a timeout with nothing stored or
  printed, after any other exception (from the receive, from \<open>json.loads\<close>, from the
  handler) with the exception printed. The loop exits only at the duration check: when
  it has exited, the duration is a number other than 0 and at some pass the time elapsed
  since the start exceeded it.
\<close>

theorem receive_failures_never_end_monitor_loop:
  "(\<not> duration_elapsed d st (now t) \<longrightarrow>
      (\<exists>s1. monitor_loop d st (t # rest) s = monitor_loop d st rest s1
           \<and> (recv t = RecvTimeout \<longrightarrow> s1 = read_clock d (now t) s)
           \<and> (\<forall>e. recv t = RecvError e \<longrightarrow>
                 s1 = say (ErrorLine ''Error: {}'' e) (read_clock d (now t) s))))
   \<and> (monitor_loop d st ps s = Exited s' \<longrightarrow>
        (\<exists>n t. d = Some n \<and> n \<noteq> 0 \<and> t \<in> set ps \<and> now t - st > real_of_int n))"
proof (intro conjI impI)
  assume "\<not> duration_elapsed d st (now t)"
  then show "\<exists>s1. monitor_loop d st (t # rest) s = monitor_loop d st rest s1
           \<and> (recv t = RecvTimeout \<longrightarrow> s1 = read_clock d (now t) s)
           \<and> (\<forall>e. recv t = RecvError e \<longrightarrow>
                 s1 = say (ErrorLine ''Error: {}'' e) (read_clock d (now t) s))"
    by (rule monitor_loop_continues)
next
  assume "monitor_loop d st ps s = Exited s'"
  then obtain p :: tick where "p \<in> set ps" and "duration_elapsed d st (now p)"
    using monitor_loop_exit by blast
  then show "\<exists>n t. d = Some n \<and> n \<noteq> 0 \<and> t \<in> set ps \<and> now t - st > real_of_int n"
    by (cases d) (auto simp: duration_elapsed_def)
qed

theorem receive_failures_never_end_monitor_loop_witness:
  "\<not> duration_elapsed (Some 30) 100 (now \<lparr>now = 101, recv = RecvTimeout\<rparr>)
   \<and> monitor_loop (Some 30) 100
         [\<lparr>now = 101, recv = RecvTimeout\<rparr>, \<lparr>now = 131, recv = RecvTimeout\<rparr>]
         \<lparr>self = MetricsMonitor_init ''ws://localhost:8095/ws'', console = [], clock_reads = []\<rparr>
       = monitor_loop (Some 30) 100 [\<lparr>now = 131, recv = RecvTimeout\<rparr>]
         \<lparr>self = MetricsMonitor_init ''ws://localhost:8095/ws'', console = [], clock_reads = [101]\<rparr>
   \<and> monitor_loop (Some 30) 100 [\<lparr>now = 131, recv = RecvTimeout\<rparr>]
         \<lparr>self = MetricsMonitor_init ''ws://localhost:8095/ws'', console = [], clock_reads = []\<rparr>
       = Exited \<lparr>self = MetricsMonitor_init ''ws://localhost:8095/ws'', console = [],
                 clock_reads = [131]\<rparr>
   \<and> (\<exists>n t. Some (30 :: int) = Some n \<and> n \<noteq> 0
          \<and> t \<in> set [\<lparr>now = 131, recv = RecvTimeout\<rparr>] \<and> now t - 100 > real_of_int n)"
  using receive_failures_never_end_monitor_loop
    [of "Some 30" 100 "\<lparr>now = 101, recv = RecvTimeout\<rparr>" "[\<lparr>now = 131, recv = RecvTimeout\<rparr>]"
        "\<lparr>self = MetricsMonitor_init ''ws://localhost:8095/ws'', console = [], clock_reads = []\<rparr>"
        "[\<lparr>now = 131, recv = RecvTimeout\<rparr>]"
        "\<lparr>self = MetricsMonitor_init ''ws://localhost:8095/ws'', console = [],
                 clock_reads = [131]\<rparr>"]
  by (simp add: duration_elapsed_def read_clock_def)

text \<open>
  Claim C9 ends with: the loop can terminate by elapsed time only when duration is a
  positive number. With duration \<open>-5\<close> and two seconds elapsed the check fires and the
  loop terminates.
\<close>

theorem zero_duration_exit_counterexample:
  "monitor_loop (Some (- 5)) 0 [\<lparr>now = 2, recv = RecvMessage (Some (JObj [(''type'', JStr ''pong'')]))\<rparr>]
       \<lparr>self = MetricsMonitor_init ''ws://localhost:8095/ws'', console = [], clock_reads = []\<rparr>
     = Exited \<lparr>self = MetricsMonitor_init ''ws://localhost:8095/ws'', console = [],
               clock_reads = [2]\<rparr>
   \<and> \<not> (0 :: int) < - 5"
  by (simp add: duration_elapsed_def read_clock_def)

text \<open>
  Claim C9 as amended: duration 0 behaves like duration \<open>None\<close>: the loop and
  \<open>connect_and_monitor\<close> go through the same states and print the same lines as with
  \<open>None\<close>; the elapsed-time check is skipped entirely, the clock being read once, for
  \<open>start_time\<close>, and never in the loop; and the loop does not exit on its own: after any
  number of passes it is still running, so once connected \<open>connect_and_monitor\<close> has not
  returned. The loop can terminate by elapsed time only when the duration is a number
  other than 0.
\<close>

theorem zero_duration_monitors_forever:
  "monitor_loop (Some 0) st ps s = monitor_loop None st ps s
   \<and> (\<exists>s1. monitor_loop (Some 0) st ps s = Running s1 \<and> clock_reads s1 = clock_reads s)
   \<and> connect_and_monitor env (Some 0) s = connect_and_monitor env None s
   \<and> (connect_error env = None \<longrightarrow>
        fst (connect_and_monitor env (Some 0) s) = None
        \<and> clock_reads (snd (connect_and_monitor env (Some 0) s)) = clock_reads s @ [clock_start env])
   \<and> (monitor_loop d st ps s = Exited s' \<longrightarrow> (\<exists>n. d = Some n \<and> n \<noteq> 0))"
proof -
  have same: "connect_and_monitor env (Some 0) s = connect_and_monitor env None s"
    by (simp add: connect_and_monitor_def monitor_loop_zero_is_None Let_def split: option.splits)
  have forever: "connect_error env = None \<longrightarrow>
        fst (connect_and_monitor env (Some 0) s) = None
        \<and> clock_reads (snd (connect_and_monitor env (Some 0) s)) = clock_reads s @ [clock_start env]"
  proof
    assume ok: "connect_error env = None"
    let ?s0 = "s\<lparr>clock_reads := clock_reads s @ [clock_start env]\<rparr>"
    let ?s1 = "say (Fmt ''Connected to metrics WebSocket: {}'' [JStr (ws_url (self ?s0))]) ?s0"
    obtain s2 where s2: "monitor_loop (Some 0) (clock_start env) (passes env) ?s1 = Running s2"
        "clock_reads s2 = clock_reads ?s1"
      using monitor_loop_skips_clock [of "Some 0" "clock_start env" "passes env" ?s1] by auto
    show "fst (connect_and_monitor env (Some 0) s) = None
        \<and> clock_reads (snd (connect_and_monitor env (Some 0) s)) = clock_reads s @ [clock_start env]"
      using s2 by (simp add: connect_and_monitor_def ok Let_def)
  qed
  have exit: "monitor_loop d st ps s = Exited s' \<longrightarrow> (\<exists>n. d = Some n \<and> n \<noteq> 0)"
  proof
    assume ex: "monitor_loop d st ps s = Exited s'"
    obtain p :: tick where "duration_elapsed d st (now p)"
      using monitor_loop_exit [OF ex] by blast
    then show "\<exists>n. d = Some n \<and> n \<noteq> 0"
      by (cases d) (auto simp: duration_elapsed_def)
  qed
  show ?thesis
    using monitor_loop_zero_is_None [of st ps s] monitor_loop_skips_clock [of "Some 0" st ps s]
      same forever exit
    by simp
qed

theorem zero_duration_monitors_forever_witness:
  "monitor_loop (Some 0) 100
       [\<lparr>now = 101, recv = RecvMessage (Some (JObj [(''type'', JStr ''lucidlink-stats''),
                                  (''lucidLink'', JObj [(''throughputMbps'', JInt 12)])]))\<rparr>,
        \<lparr>now = 5000, recv = RecvError ConnectionClosed\<rparr>]
       \<lparr>self = MetricsMonitor_init ''ws://localhost:8095/ws'', console = [], clock_reads = [100]\<rparr>
     = Running \<lparr>self = \<lparr>ws_url = ''ws://localhost:8095/ws'',
                        metrics = \<lparr>lucidLink = JObj [(''throughputMbps'', JInt 12)], s3Health = JNull\<rparr>\<rparr>,
                console = [Fmt ''LucidLink: {:.2f} MB/s'' [JInt 12],
                           ErrorLine ''Error: {}'' ConnectionClosed],
                clock_reads = [100]\<rparr>
   \<and> monitor_loop None 100
       [\<lparr>now = 101, recv = RecvMessage (Some (JObj [(''type'', JStr ''lucidlink-stats''),
                                  (''lucidLink'', JObj [(''throughputMbps'', JInt 12)])]))\<rparr>,
        \<lparr>now = 5000, recv = RecvError ConnectionClosed\<rparr>]
       \<lparr>self = MetricsMonitor_init ''ws://localhost:8095/ws'', console = [], clock_reads = [100]\<rparr>
     = Running \<lparr>self = \<lparr>ws_url = ''ws://localhost:8095/ws'',
                        metrics = \<lparr>lucidLink = JObj [(''throughputMbps'', JInt 12)], s3Health = JNull\<rparr>\<rparr>,
                console = [Fmt ''LucidLink: {:.2f} MB/s'' [JInt 12],
                           ErrorLine ''Error: {}'' ConnectionClosed],
                clock_reads = [100]\<rparr>
   \<and> monitor_loop (Some 30) 100
       [\<lparr>now = 101, recv = RecvTimeout\<rparr>, \<lparr>now = 131, recv = RecvTimeout\<rparr>]
       \<lparr>self = MetricsMonitor_init ''ws://localhost:8095/ws'', console = [], clock_reads = [100]\<rparr>
      = Exited \<lparr>self = MetricsMonitor_init ''ws://localhost:8095/ws'', console = [],
                clock_reads = [100, 101, 131]\<rparr>
   \<and> (\<exists>n. Some (30 :: int) = Some n \<and> n \<noteq> 0)"
  using zero_duration_monitors_forever
    [of 100 "[\<lparr>now = 101, recv = RecvMessage (Some (JObj [(''type'', JStr ''lucidlink-stats''),
                                  (''lucidLink'', JObj [(''throughputMbps'', JInt 12)])]))\<rparr>,
        \<lparr>now = 5000, recv = RecvError ConnectionClosed\<rparr>]"
        "\<lparr>self = MetricsMonitor_init ''ws://localhost:8095/ws'', console = [], clock_reads = [100]\<rparr>"
        "\<lparr>clock_start = 100, connect_error = None, passes = []\<rparr>"
        "Some 30"
        "\<lparr>self = MetricsMonitor_init ''ws://localhost:8095/ws'', console = [], clock_reads = [100, 101, 131]\<rparr>"]
  by (simp add: duration_elapsed_def read_clock_def handle_message_def handle_lucidlink_stats_def
        subscript2_def say_def set_lucidLink_def MetricsMonitor_init_def Let_def)

subsection \<open>monitor_job\<close>

lemma issued_print [simp]: "issued (print l w) = issued w"
  by (simp add: print_def)

lemma sent_print [simp]: "sent (print l w) = sent w"
  by (simp add: print_def)

lemma out_print [simp]: "out (print l w) = out w @ [l]"
  by (simp add: print_def)

lemma default_progress_issued: "issued (snd (default_progress job w)) = issued w"
  by (simp add: default_progress_def split: sum.splits)

lemma report_progress_issued: "issued (snd (report_progress cb job w)) = issued w"
proof (cases "default_progress job w")
  case (Pair r w')
  then show ?thesis
    using default_progress_issued [of job w]
    by (simp add: report_progress_def split: sum.splits)
qed










subsection \<open>batch_cache_directories\<close>

lemma get_job_status_effect:
  "\<exists>g. issued (snd (get_job_status srv c job_id w)) = issued w @ [g] \<and> verb g = GET
       \<and> out (snd (get_job_status srv c job_id w)) = out w"
  by (simp add: get_job_status_def session_get_def checked_json_snd http_send_issued http_send_out)

lemma default_progress_out:
  "out (snd (default_progress job w)) = out w
   \<or> (\<exists>args. out (snd (default_progress job w)) = out w @ [Fmt ''Progress: {} / {} ({}%)'' args])"
  by (simp add: default_progress_def split: sum.splits)

lemma report_progress_out:
  "out (snd (report_progress cb job w)) = out w
   \<or> (\<exists>args. out (snd (report_progress cb job w)) = out w @ [Fmt ''Progress: {} / {} ({}%)'' args])"
proof (cases "default_progress job w")
  case (Pair r w')
  then show ?thesis
    using default_progress_out [of job w]
    by (auto simp: report_progress_def split: sum.splits)
qed

text \<open>
  What a run of \<open>monitor_job\<close> that ends leaves behind: GET requests, and no line but
  progress lines and the empty line.
\<close>

lemma monitor_job_effect:
  "monitor_job fuel srv c job_id interval cb w = Some (res, w') \<Longrightarrow>
   \<exists>gs ls. issued w' = issued w @ gs \<and> (\<forall>g \<in> set gs. verb g = GET)
         \<and> out w' = out w @ ls
         \<and> (\<forall>l \<in> set ls. (\<exists>args. l = Fmt ''Progress: {} / {} ({}%)'' args) \<or> l = Text [])"
proof (induction fuel arbitrary: w)
  case 0
  then show ?case by simp
next
  case (Suc fuel)
  obtain r1 w1 where g: "get_job_status srv c job_id w = (r1, w1)"
    by (cases "get_job_status srv c job_id w")
  obtain g1 where w1: "issued w1 = issued w @ [g1]" "verb g1 = GET" "out w1 = out w"
    using get_job_status_effect [of srv c job_id w] g by auto
  have base: "\<exists>gs ls. issued w1 = issued w @ gs \<and> (\<forall>g \<in> set gs. verb g = GET)
         \<and> out w1 = out w @ ls
         \<and> (\<forall>l \<in> set ls. (\<exists>args. l = Fmt ''Progress: {} / {} ({}%)'' args) \<or> l = Text [])"
    using w1 by (intro exI [of _ "[g1]"] exI [of _ "[]"]) simp
  show ?case
  proof (cases r1)
    case (Inl e)
    with Suc.prems g base show ?thesis by auto
  next
    case (Inr status)
    show ?thesis
    proof (cases "subscript status ''job''")
      case (Inl e)
      with Suc.prems g base Inr show ?thesis by auto
    next
      case job: (Inr job)
      obtain r2 w2 where rp: "report_progress cb job w1 = (r2, w2)"
        by (cases "report_progress cb job w1")
      have w2i: "issued w2 = issued w @ [g1]"
        using report_progress_issued [of cb job w1] rp w1 by simp
      obtain ls2 where w2o: "out w2 = out w @ ls2"
          "\<forall>l \<in> set ls2. (\<exists>args. l = Fmt ''Progress: {} / {} ({}%)'' args) \<or> l = Text []"
        using report_progress_out [of cb job w1] rp w1(3) by auto
      have step: "\<exists>gs ls. issued w2 = issued w @ gs \<and> (\<forall>g \<in> set gs. verb g = GET)
         \<and> out w2 = out w @ ls
         \<and> (\<forall>l \<in> set ls. (\<exists>args. l = Fmt ''Progress: {} / {} ({}%)'' args) \<or> l = Text [])"
        using w2i w2o w1(2) by (intro exI [of _ "[g1]"] exI [of _ ls2]) simp
      show ?thesis
      proof (cases r2)
        case (Inl e)
        with Suc.prems g Inr job rp step show ?thesis by auto
      next
        case r2: (Inr job')
        show ?thesis
        proof (cases "subscript job' ''status''")
          case (Inl e)
          with Suc.prems g Inr job rp r2 step show ?thesis by auto
        next
          case st: (Inr st)
          show ?thesis
          proof (cases "st \<in> set terminal_statuses")
            case True
            have "w' = print (Text []) w2"
              using Suc.prems g Inr job rp r2 st True by simp
            then have "issued w' = issued w @ [g1]" "out w' = out w @ (ls2 @ [Text []])"
              using w2i w2o by simp_all
            then show ?thesis
              using w1(2) w2o(2) by (intro exI [of _ "[g1]"] exI [of _ "ls2 @ [Text []]"]) auto
          next
            case False
            show ?thesis
            proof (cases "sleep interval")
              case (Inl e)
              with Suc.prems g Inr job rp r2 st False step show ?thesis by auto
            next
              case sl: (Inr u')
              have "monitor_job fuel srv c job_id interval cb w2 = Some (res, w')"
                using Suc.prems g Inr job rp r2 st False sl by simp
              then obtain gs ls where rest: "issued w' = issued w2 @ gs" "\<forall>g \<in> set gs. verb g = GET"
                  "out w' = out w2 @ ls"
                  "\<forall>l \<in> set ls. (\<exists>args. l = Fmt ''Progress: {} / {} ({}%)'' args) \<or> l = Text []"
                using Suc.IH by blast
              have "issued w' = issued w @ (g1 # gs)" "out w' = out w @ (ls2 @ ls)"
                using rest w2i w2o by simp_all
              then show ?thesis
                using rest(2,4) w1(2) w2o(2)
                by (intro exI [of _ "g1 # gs"] exI [of _ "ls2 @ ls"]) auto
            qed
          qed
        qed
      qed
    qed
  qed
qed

lemma create_cache_job_directory:
  "\<exists>w'. create_cache_job srv c None (Some [directory]) True w
           = (reply_result (srv (length (issued w)) (submit_request c directory)), w')
        \<and> issued w' = issued w @ [submit_request c directory] \<and> out w' = out w"
proof -
  let ?res = "create_cache_job srv c None (Some [directory]) True w"
  have "fst ?res = reply_result (srv (length (issued w)) (submit_request c directory))"
    by (simp add: create_cache_job_def create_cache_job_data_def session_post_def
        checked_json_fst http_send_fst submit_request_def reply_result_def raise_for_status_def
        response_json_def split: reply.splits option.splits)
  moreover have "issued (snd ?res) = issued w @ [submit_request c directory]" "out (snd ?res) = out w"
    by (simp_all add: create_cache_job_def create_cache_job_data_def session_post_def
        checked_json_snd http_send_issued http_send_out submit_request_def)
  ultimately show ?thesis
    by (cases ?res) auto
qed

lemma created_job_ids_append:
  "created_job_ids srv n (xs @ ys) = created_job_ids srv n xs @ created_job_ids srv (n + length xs) ys"
  by (induction xs arbitrary: n) simp_all

lemma created_job_ids_gets:
  "\<forall>g \<in> set gs. verb g = GET \<Longrightarrow> created_job_ids srv n gs = []"
  by (induction gs arbitrary: n) simp_all

lemma created_job_ids_length:
  "length (created_job_ids srv n rqs) \<le> length (filter (\<lambda>rq. verb rq = POST) rqs)"
proof (induction rqs arbitrary: n)
  case Nil
  show ?case by simp
next
  case (Cons rq rqs)
  have "length (created_job_ids srv (Suc n) rqs) \<le> length (filter (\<lambda>rq. verb rq = POST) rqs)"
    by (rule Cons.IH)
  then show ?case
    by (auto split: sum.splits)
qed

lemma filter_post_gets:
  "\<forall>g \<in> set gs. verb g = GET \<Longrightarrow> filter (\<lambda>rq. verb rq = POST) gs = []"
  by (induction gs) simp_all

lemma verb_submit_request [simp]: "verb (submit_request c directory) = POST"
  by (simp add: submit_request_def)

lemma progress_lines_are_quiet:
  assumes "\<forall>l \<in> set ls. (\<exists>args. l = Fmt ''Progress: {} / {} ({}%)'' args) \<or> l = Text []"
  shows "\<forall>l \<in> set ls. \<not> is_submitting_line l \<and> \<not> is_error_line l \<and> \<not> is_final_line m l"
proof
  fix l assume "l \<in> set ls"
  with assms have "(\<exists>args. l = Fmt ''Progress: {} / {} ({}%)'' args) \<or> l = Text []"
    by blast
  then show "\<not> is_submitting_line l \<and> \<not> is_error_line l \<and> \<not> is_final_line m l"
    by (cases m) auto
qed

lemma filter_final_quiet:
  "\<forall>l \<in> set ls. \<not> is_final_line m l \<Longrightarrow> filter (is_final_line m) ls = []"
  by (induction ls) simp_all

text \<open>One pass of the loop body: the requests it hands over, the job IDs, the lines.\<close>

lemma try_submit_effect:
  assumes run: "try_submit fuel srv render c monitor d ids w = Some (u, ids', w')"
  shows "\<exists>gs ls. issued w' = issued w @ submit_request c d # gs
          \<and> (\<forall>g \<in> set gs. verb g = GET)
          \<and> ids' = ids @ created_job_ids srv (length (issued w)) [submit_request c d]
          \<and> out w' = out w @ Fmt ''Submitting job for: {}'' [JStr d] # ls
          \<and> (\<forall>l \<in> set ls. \<not> is_submitting_line l \<and> \<not> is_error_line l)
          \<and> length (filter (is_final_line monitor) ls) = (case u of Inl e \<Rightarrow> 0 | Inr x \<Rightarrow> 1)"
proof -
  let ?w0 = "print (Fmt ''Submitting job for: {}'' [JStr d]) w"
  let ?rq = "submit_request c d"
  obtain w1 where cr: "create_cache_job srv c None (Some [d]) True ?w0
              = (reply_result (srv (length (issued w)) ?rq), w1)"
      and w1: "issued w1 = issued w @ [?rq]" "out w1 = out w @ [Fmt ''Submitting job for: {}'' [JStr d]]"
    using create_cache_job_directory [of srv c d ?w0] by auto
  show ?thesis
  proof (cases "reply_result (srv (length (issued w)) ?rq)")
    case (Inl e)
    then have "u = Inl e" "ids' = ids" "w' = w1"
      using run cr by (simp_all add: try_submit_def)
    then show ?thesis
      using w1 Inl by (intro exI [of _ "[]"]) simp
  next
    case res: (Inr result)
    show ?thesis
    proof (cases "subscript result ''jobId''")
      case (Inl e)
      then have "u = Inl e" "ids' = ids" "w' = w1"
        using run cr res by (simp_all add: try_submit_def)
      then show ?thesis
        using w1 res Inl by (intro exI [of _ "[]"]) simp
    next
      case jid: (Inr job_id)
      have ids: "ids @ created_job_ids srv (length (issued w)) [?rq] = ids @ [job_id]"
        using res jid by simp
      let ?w2 = "print (Fmt ''  Created job: {}'' [job_id]) w1"
      show ?thesis
      proof (cases "subscript result ''totalFiles''")
        case (Inl e)
        then have "u = Inl e" "ids' = ids @ [job_id]" "w' = ?w2"
          using run cr res jid by (simp_all add: try_submit_def Let_def)
        then show ?thesis
          using w1 ids
          by (intro exI [of _ "[]"] exI [of _ "[Fmt ''  Created job: {}'' [job_id]]"]) simp
      next
        case tf: (Inr total_files)
        let ?w3 = "print (Fmt ''  Files: {}'' [total_files]) ?w2"
        show ?thesis
        proof (cases "subscript2 result ''totalSize'' ''readable''")
          case (Inl e)
          then have "u = Inl e" "ids' = ids @ [job_id]" "w' = ?w3"
            using run cr res jid tf by (simp_all add: try_submit_def Let_def)
          then show ?thesis
            using w1 ids
            by (intro exI [of _ "[]"]
                  exI [of _ "[Fmt ''  Created job: {}'' [job_id], Fmt ''  Files: {}'' [total_files]]"])
               simp
        next
          case rd: (Inr readable)
          let ?w4 = "print (Fmt ''  Size: {}'' [readable]) ?w3"
          let ?pre = "[Fmt ''  Created job: {}'' [job_id], Fmt ''  Files: {}'' [total_files],
                       Fmt ''  Size: {}'' [readable]]"
          show ?thesis
          proof (cases monitor)
            case False
            then have "u = Inr ()" "ids' = ids @ [job_id]" "w' = ?w4"
              using run cr res jid tf rd by (simp_all add: try_submit_def Let_def)
            then show ?thesis
              using w1 ids False by (intro exI [of _ "[]"] exI [of _ ?pre]) simp
          next
            case True
            let ?w4m = "print (Text ''  Monitoring progress...'') ?w4"
            obtain mr w5 where mj: "monitor_job fuel srv c (py_str render job_id) 5 None ?w4m = Some (mr, w5)"
              using run cr res jid tf rd True
              by (auto simp: try_submit_def Let_def split: option.splits)
            obtain gs mls where eff: "issued w5 = issued ?w4m @ gs" "\<forall>g \<in> set gs. verb g = GET"
                "out w5 = out ?w4m @ mls"
                "\<forall>l \<in> set mls. (\<exists>args. l = Fmt ''Progress: {} / {} ({}%)'' args) \<or> l = Text []"
              using monitor_job_effect [OF mj] by blast
            have quiet: "\<forall>l \<in> set mls. \<not> is_submitting_line l \<and> \<not> is_error_line l \<and> \<not> is_final_line True l"
              using progress_lines_are_quiet [OF eff(4)] by blast
            have nofinal: "filter (is_final_line True) mls = []"
              using quiet by (intro filter_final_quiet) blast
            have i5: "issued w5 = issued w @ ?rq # gs"
              using eff(1) w1 by simp
            have o5: "out w5 = out w @ Fmt ''Submitting job for: {}'' [JStr d]
                          # (?pre @ [Text ''  Monitoring progress...''] @ mls)"
              using eff(3) w1 by simp
            show ?thesis
            proof (cases mr)
              case (Inl e)
              then have "u = Inl e" "ids' = ids @ [job_id]" "w' = w5"
                using run cr res jid tf rd True mj by (simp_all add: try_submit_def Let_def)
              then show ?thesis
                using i5 o5 ids True eff(2) quiet nofinal
                by (intro exI [of _ gs] exI [of _ "?pre @ [Text ''  Monitoring progress...''] @ mls"])
                   auto
            next
              case fin: (Inr final_status)
              show ?thesis
              proof (cases "subscript final_status ''status''")
                case (Inl e)
                then have "u = Inl e" "ids' = ids @ [job_id]" "w' = w5"
                  using run cr res jid tf rd True mj fin by (simp_all add: try_submit_def Let_def)
                then show ?thesis
                  using i5 o5 ids True eff(2) quiet nofinal
                  by (intro exI [of _ gs] exI [of _ "?pre @ [Text ''  Monitoring progress...''] @ mls"])
                     auto
              next
                case (Inr st)
                then have "u = Inr ()" "ids' = ids @ [job_id]"
                    "w' = print (Fmt ''  Final status: {}'' [st]) w5"
                  using run cr res jid tf rd True mj fin by (simp_all add: try_submit_def Let_def)
                then show ?thesis
                  using i5 o5 ids True eff(2) quiet nofinal
                  by (intro exI [of _ gs]
                        exI [of _ "?pre @ [Text ''  Monitoring progress...''] @ mls
                                   @ [Fmt ''  Final status: {}'' [st]]"])
                     auto
              qed
            qed
          qed
        qed
      qed
    qed
  qed
qed

lemma batch_loop_effect:
  "batch_loop fuel srv render c monitor ds ids w = Some (ids', w') \<Longrightarrow>
   \<exists>new ls. issued w' = issued w @ new
       \<and> filter (\<lambda>rq. verb rq = POST) new = map (submit_request c) ds
       \<and> ids' = ids @ created_job_ids srv (length (issued w)) new
       \<and> out w' = out w @ ls
       \<and> filter is_submitting_line ls = map (\<lambda>d. Fmt ''Submitting job for: {}'' [JStr d]) ds
       \<and> length (filter is_error_line ls) + length (filter (is_final_line monitor) ls) = length ds"
proof (induction ds arbitrary: ids w)
  case Nil
  then show ?case by simp
next
  case (Cons d ds)
  obtain u ids1 w1 where ts: "try_submit fuel srv render c monitor d ids w = Some (u, ids1, w1)"
    using Cons.prems by (cases "try_submit fuel srv render c monitor d ids w") auto
  obtain gs ls1 where p: "issued w1 = issued w @ submit_request c d # gs"
      "\<forall>g \<in> set gs. verb g = GET"
      "ids1 = ids @ created_job_ids srv (length (issued w)) [submit_request c d]"
      "out w1 = out w @ Fmt ''Submitting job for: {}'' [JStr d] # ls1"
      "\<forall>l \<in> set ls1. \<not> is_submitting_line l \<and> \<not> is_error_line l"
      "length (filter (is_final_line monitor) ls1) = (case u of Inl e \<Rightarrow> 0 | Inr x \<Rightarrow> 1)"
    using try_submit_effect [OF ts] by blast
  define el where "el = (case u of Inl e \<Rightarrow> [ErrorLine ''  Error: {}'' e] | Inr x \<Rightarrow> [])"
  define w2 where "w2 = (case u of Inl e \<Rightarrow> print (ErrorLine ''  Error: {}'' e) w1 | Inr x \<Rightarrow> w1)"
  have w2: "issued w2 = issued w1" "out w2 = out w1 @ el"
    by (simp_all add: w2_def el_def split: sum.splits)
  have el: "filter is_submitting_line el = []" "filter (is_final_line monitor) el = []"
      "length (filter is_error_line el) = (case u of Inl e \<Rightarrow> 1 | Inr x \<Rightarrow> 0)"
    by (simp_all add: el_def split: sum.splits)
  have ls1: "filter is_submitting_line ls1 = []" "filter is_error_line ls1 = []"
    using p(5) by (simp_all add: filter_empty_conv)
  have "batch_loop fuel srv render c monitor ds ids1 w2 = Some (ids', w')"
    using Cons.prems ts by (simp add: w2_def split: sum.splits)
  then obtain new ls where r: "issued w' = issued w2 @ new"
      "filter (\<lambda>rq. verb rq = POST) new = map (submit_request c) ds"
      "ids' = ids1 @ created_job_ids srv (length (issued w2)) new"
      "out w' = out w2 @ ls"
      "filter is_submitting_line ls = map (\<lambda>d. Fmt ''Submitting job for: {}'' [JStr d]) ds"
      "length (filter is_error_line ls) + length (filter (is_final_line monitor) ls) = length ds"
    using Cons.IH by blast
  let ?new = "submit_request c d # gs @ new"
  let ?ls = "Fmt ''Submitting job for: {}'' [JStr d] # ls1 @ el @ ls"
  have "issued w' = issued w @ ?new"
    using r(1) w2(1) p(1) by simp
  moreover have "filter (\<lambda>rq. verb rq = POST) ?new = map (submit_request c) (d # ds)"
    using r(2) filter_post_gets [OF p(2)] by simp
  moreover have "ids' = ids @ created_job_ids srv (length (issued w)) ?new"
    using r(3) p(3) w2(1) p(1) created_job_ids_gets [OF p(2), of srv "Suc (length (issued w))"]
    by (simp add: created_job_ids_append)
  moreover have "out w' = out w @ ?ls"
    using r(4) w2(2) p(4) by simp
  moreover have "filter is_submitting_line ?ls
                   = map (\<lambda>d. Fmt ''Submitting job for: {}'' [JStr d]) (d # ds)"
    using r(5) ls1(1) el(1) by simp
  moreover have "length (filter is_error_line ?ls) + length (filter (is_final_line monitor) ?ls)
                   = length (d # ds)"
    using r(6) ls1(2) el(2,3) p(6) by (cases monitor; cases u) simp_all
  ultimately show ?case by blast
qed

text \<open>
  The function returns as soon as every run of \<open>monitor_job\<close> it starts ends, by
  returning or by raising.
\<close>

lemma try_submit_returns:
  assumes "monitor \<Longrightarrow> \<forall>job_id w1. monitor_job fuel srv c job_id 5 None w1 \<noteq> None"
  shows "try_submit fuel srv render c monitor d ids w \<noteq> None"
proof (cases monitor)
  case False
  then show ?thesis
    by (simp add: try_submit_def Let_def split: prod.splits sum.splits)
next
  case True
  then have mj: "(monitor_job fuel srv c job_id 5 None w1 = None) = False" for job_id w1
    using assms by blast
  show ?thesis
    by (simp add: try_submit_def Let_def mj split: prod.splits sum.splits option.splits)
qed

lemma batch_loop_returns:
  assumes "monitor \<Longrightarrow> \<forall>job_id w1. monitor_job fuel srv c job_id 5 None w1 \<noteq> None"
  shows "batch_loop fuel srv render c monitor ds ids w \<noteq> None"
proof (induction ds arbitrary: ids w)
  case Nil
  show ?case by simp
next
  case (Cons d ds)
  have "try_submit fuel srv render c monitor d ids w \<noteq> None"
    by (rule try_submit_returns) (use assms in blast)
  then obtain u ids1 w1 where ts: "try_submit fuel srv render c monitor d ids w = Some (u, ids1, w1)"
    by (cases "try_submit fuel srv render c monitor d ids w") auto
  show ?case
    using Cons.IH by (cases u) (simp_all add: ts)
qed

lemma batch_loop_append:
  "batch_loop fuel srv render c monitor (xs @ ys) ids w =
     (case batch_loop fuel srv render c monitor xs ids w of
        None \<Rightarrow> None
      | Some (ids1, w1) \<Rightarrow> batch_loop fuel srv render c monitor ys ids1 w1)"
proof (induction xs arbitrary: ids w)
  case Nil
  show ?case by simp
next
  case (Cons x xs)
  show ?case
  proof (cases "try_submit fuel srv render c monitor x ids w")
    case None
    then show ?thesis by simp
  next
    case (Some r)
    obtain u ids1 w1 where r: "r = (u, ids1, w1)" by (cases r)
    show ?thesis
      using Cons.IH by (cases u) (simp_all add: Some r)
  qed
qed

text \<open>
  Claim C5: \<open>batch_cache_directories\<close> returns as soon as every run of \<open>monitor_job\<close>
  it starts ends, by returning or by raising (without monitoring it always returns). It
  has then gone through the directories in order, one pass and one POST each, whether or
  not earlier passes raised: the list returned is exactly the job IDs of the successfully
  created jobs in submission order, so its length is at most the number of directories;
  and every pass has either ended normally or had its exception printed by the handler,
  whether the exception came from the submission or from the monitoring. In particular,
  when the pass for a directory raises, the loop goes on with the remaining directories
  from the state in which that exception has been printed.
\<close>

theorem batch_cache_directories_collects_created_jobs:
  assumes settles: "monitor \<Longrightarrow> \<forall>job_id w1. monitor_job fuel srv c job_id 5 None w1 \<noteq> None"
  shows "(\<exists>job_ids w' new ls.
            batch_cache_directories fuel srv render c directories monitor w = Some (job_ids, w')
          \<and> issued w' = issued w @ new
          \<and> filter (\<lambda>rq. verb rq = POST) new = map (submit_request c) directories
          \<and> job_ids = created_job_ids srv (length (issued w)) new
          \<and> length job_ids \<le> length directories
          \<and> out w' = out w @ ls
          \<and> filter is_submitting_line ls
               = map (\<lambda>d. Fmt ''Submitting job for: {}'' [JStr d]) directories
          \<and> length (filter is_error_line ls) + length (filter (is_final_line monitor) ls)
               = length directories)
       \<and> (batch_loop fuel srv render c monitor before ids w0 = Some (ids1, w1)
            \<and> try_submit fuel srv render c monitor directory ids1 w1 = Some (Inl e, ids2, w2) \<longrightarrow>
          batch_loop fuel srv render c monitor (before @ directory # rest) ids w0
            = batch_loop fuel srv render c monitor rest ids2 (print (ErrorLine ''  Error: {}'' e) w2))"
proof (intro conjI impI)
  have "batch_loop fuel srv render c monitor directories [] w \<noteq> None"
    by (rule batch_loop_returns) (use settles in blast)
  then obtain job_ids w' where run: "batch_loop fuel srv render c monitor directories [] w = Some (job_ids, w')"
    by (cases "batch_loop fuel srv render c monitor directories [] w") auto
  obtain new ls where eff: "issued w' = issued w @ new"
      "filter (\<lambda>rq. verb rq = POST) new = map (submit_request c) directories"
      "job_ids = created_job_ids srv (length (issued w)) new"
      "out w' = out w @ ls"
      "filter is_submitting_line ls = map (\<lambda>d. Fmt ''Submitting job for: {}'' [JStr d]) directories"
      "length (filter is_error_line ls) + length (filter (is_final_line monitor) ls) = length directories"
    using batch_loop_effect [OF run] by auto
  have "length job_ids \<le> length (filter (\<lambda>rq. verb rq = POST) new)"
    unfolding eff(3) by (rule created_job_ids_length)
  then have len: "length job_ids \<le> length directories"
    by (simp add: eff(2))
  show "\<exists>job_ids w' new ls.
            batch_cache_directories fuel srv render c directories monitor w = Some (job_ids, w')
          \<and> issued w' = issued w @ new
          \<and> filter (\<lambda>rq. verb rq = POST) new = map (submit_request c) directories
          \<and> job_ids = created_job_ids srv (length (issued w)) new
          \<and> length job_ids \<le> length directories
          \<and> out w' = out w @ ls
          \<and> filter is_submitting_line ls
               = map (\<lambda>d. Fmt ''Submitting job for: {}'' [JStr d]) directories
          \<and> length (filter is_error_line ls) + length (filter (is_final_line monitor) ls)
               = length directories"
    using run eff len unfolding batch_cache_directories_def by blast
next
  assume "batch_loop fuel srv render c monitor before ids w0 = Some (ids1, w1)
            \<and> try_submit fuel srv render c monitor directory ids1 w1 = Some (Inl e, ids2, w2)"
  then show "batch_loop fuel srv render c monitor (before @ directory # rest) ids w0
            = batch_loop fuel srv render c monitor rest ids2 (print (ErrorLine ''  Error: {}'' e) w2)"
    by (simp add: batch_loop_append)
qed

lemmas batch_run_defs =
  batch_cache_directories_def try_submit_def create_cache_job_def create_cache_job_data_def
  session_post_def session_get_def get_job_status_def checked_json_def http_send_def
  raise_for_status_def response_json_def print_def subscript2_def report_progress_def
  use_callback_def default_progress_def terminal_statuses_def sleep_def py_str_def
  TeamCacheClient_init_def rstrip_def Let_def

theorem batch_cache_directories_collects_created_jobs_witness:
  "\<exists>w'. batch_cache_directories (Suc 0)
           (\<lambda>n rq. if verb rq = GET
                    then (if url rq = ''http://localhost:8095/api/v1/cache/jobs/job-A''
                          then Response \<lparr>status_code = 500, body = None\<rparr>
                          else Response \<lparr>status_code = 200, body = Some (JObj
                                 [(''job'', JObj [(''status'', JStr ''completed''),
                                    (''progress'', JObj [(''size'', JObj
                                       [(''completedReadable'', JStr ''1 GB''),
                                        (''totalReadable'', JStr ''1 GB''),
                                        (''percentage'', JInt 100)])])])])\<rparr>)
                    else if json_body rq = Some (JObj [(''recursive'', JBool True),
                                                 (''directories'', JArr [JStr ''Projects/A''])])
                    then Response \<lparr>status_code = 200, body = Some (JObj
                           [(''jobId'', JStr ''job-A''), (''totalFiles'', JInt 3),
                            (''totalSize'', JObj [(''readable'', JStr ''1 GB'')])])\<rparr>
                    else if json_body rq = Some (JObj [(''recursive'', JBool True),
                                                 (''directories'', JArr [JStr ''Projects/B''])])
                    then Response \<lparr>status_code = 500, body = None\<rparr>
                    else Response \<lparr>status_code = 200, body = Some (JObj
                           [(''jobId'', JStr ''job-C''), (''totalFiles'', JInt 1),
                            (''totalSize'', JObj [(''readable'', JStr ''2 MB'')])])\<rparr>)
           (\<lambda>j. ''?'') (TeamCacheClient_init ''http://localhost:8095'' ''key'')
           [''Projects/A'', ''Projects/B'', ''Projects/C''] True
           \<lparr>issued = [], sent = [], out = []\<rparr>
         = Some ([JStr ''job-A'', JStr ''job-C''], w')
       \<and> map verb (issued w') = [POST, GET, POST, POST, GET]
       \<and> filter (\<lambda>rq. verb rq = POST) (issued w')
            = map (submit_request (TeamCacheClient_init ''http://localhost:8095'' ''key''))
                [''Projects/A'', ''Projects/B'', ''Projects/C'']
       \<and> filter is_error_line (out w')
            = [ErrorLine ''  Error: {}'' (HTTPError 500), ErrorLine ''  Error: {}'' (HTTPError 500)]
       \<and> filter (is_final_line True) (out w') = [Fmt ''  Final status: {}'' [JStr ''completed'']]
       \<and> length [JStr ''job-A'', JStr ''job-C''] \<le> length [''Projects/A'', ''Projects/B'', ''Projects/C'']
       \<and> try_submit 0 (\<lambda>n rq. Response \<lparr>status_code = 500, body = None\<rparr>) (\<lambda>j. ''?'')
             (TeamCacheClient_init ''http://localhost:8095'' ''key'') False ''Projects/B'' []
             \<lparr>issued = [], sent = [], out = []\<rparr>
           = Some (Inl (HTTPError 500), [],
                   \<lparr>issued = [submit_request (TeamCacheClient_init ''http://localhost:8095'' ''key'') ''Projects/B''],
                    sent = [submit_request (TeamCacheClient_init ''http://localhost:8095'' ''key'') ''Projects/B''],
                    out = [Fmt ''Submitting job for: {}'' [JStr ''Projects/B'']]\<rparr>)
       \<and> batch_loop 0 (\<lambda>n rq. Response \<lparr>status_code = 500, body = None\<rparr>) (\<lambda>j. ''?'')
             (TeamCacheClient_init ''http://localhost:8095'' ''key'') False [''Projects/B''] []
             \<lparr>issued = [], sent = [], out = []\<rparr>
           = Some ([],
                   \<lparr>issued = [submit_request (TeamCacheClient_init ''http://localhost:8095'' ''key'') ''Projects/B''],
                    sent = [submit_request (TeamCacheClient_init ''http://localhost:8095'' ''key'') ''Projects/B''],
                    out = [Fmt ''Submitting job for: {}'' [JStr ''Projects/B''],
                           ErrorLine ''  Error: {}'' (HTTPError 500)]\<rparr>)"
proof -
  define srv :: server where "srv = (\<lambda>n rq. if verb rq = GET
                    then (if url rq = ''http://localhost:8095/api/v1/cache/jobs/job-A''
                          then Response \<lparr>status_code = 500, body = None\<rparr>
                          else Response \<lparr>status_code = 200, body = Some (JObj
                                 [(''job'', JObj [(''status'', JStr ''completed''),
                                    (''progress'', JObj [(''size'', JObj
                                       [(''completedReadable'', JStr ''1 GB''),
                                        (''totalReadable'', JStr ''1 GB''),
                                        (''percentage'', JInt 100)])])])])\<rparr>)
                    else if json_body rq = Some (JObj [(''recursive'', JBool True),
                                                 (''directories'', JArr [JStr ''Projects/A''])])
                    then Response \<lparr>status_code = 200, body = Some (JObj
                           [(''jobId'', JStr ''job-A''), (''totalFiles'', JInt 3),
                            (''totalSize'', JObj [(''readable'', JStr ''1 GB'')])])\<rparr>
                    else if json_body rq = Some (JObj [(''recursive'', JBool True),
                                                 (''directories'', JArr [JStr ''Projects/B''])])
                    then Response \<lparr>status_code = 500, body = None\<rparr>
                    else Response \<lparr>status_code = 200, body = Some (JObj
                           [(''jobId'', JStr ''job-C''), (''totalFiles'', JInt 1),
                            (''totalSize'', JObj [(''readable'', JStr ''2 MB'')])])\<rparr>)"
  define c where "c = TeamCacheClient_init ''http://localhost:8095'' ''key''"
  define run where "run = batch_cache_directories (Suc 0) srv (\<lambda>j. ''?'') c
           [''Projects/A'', ''Projects/B'', ''Projects/C''] True \<lparr>issued = [], sent = [], out = []\<rparr>"
  have settles: "True \<Longrightarrow> \<forall>job_id w1. monitor_job (Suc 0) srv c job_id 5 None w1 \<noteq> None"
    unfolding srv_def c_def by (simp add: batch_run_defs)
  have ids: "map_option fst run = Some [JStr ''job-A'', JStr ''job-C'']"
    and verbs: "map_option (map verb \<circ> issued \<circ> snd) run = Some [POST, GET, POST, POST, GET]"
    and errs: "map_option (filter is_error_line \<circ> out \<circ> snd) run
                 = Some [ErrorLine ''  Error: {}'' (HTTPError 500), ErrorLine ''  Error: {}'' (HTTPError 500)]"
    and fins: "map_option (filter (is_final_line True) \<circ> out \<circ> snd) run
                 = Some [Fmt ''  Final status: {}'' [JStr ''completed'']]"
    unfolding run_def srv_def c_def
    by (simp_all add: batch_run_defs)
  obtain job_ids w' new where main: "run = Some (job_ids, w')" "issued w' = [] @ new"
      "filter (\<lambda>rq. verb rq = POST) new
         = map (submit_request c) [''Projects/A'', ''Projects/B'', ''Projects/C'']"
    using batch_cache_directories_collects_created_jobs
      [where fuel = "Suc 0" and srv = srv and render = "\<lambda>j. ''?''" and c = c
         and directories = "[''Projects/A'', ''Projects/B'', ''Projects/C'']" and monitor = True
         and w = "\<lparr>issued = [], sent = [], out = []\<rparr>", OF settles, THEN conjunct1]
    unfolding run_def by auto
  have "job_ids = [JStr ''job-A'', JStr ''job-C'']" "map verb (issued w') = [POST, GET, POST, POST, GET]"
      "filter is_error_line (out w')
         = [ErrorLine ''  Error: {}'' (HTTPError 500), ErrorLine ''  Error: {}'' (HTTPError 500)]"
      "filter (is_final_line True) (out w') = [Fmt ''  Final status: {}'' [JStr ''completed'']]"
    using ids verbs errs fins main(1) by simp_all
  moreover have ts: "try_submit 0 (\<lambda>n rq. Response \<lparr>status_code = 500, body = None\<rparr>) (\<lambda>j. ''?'') c False
             ''Projects/B'' [] \<lparr>issued = [], sent = [], out = []\<rparr>
           = Some (Inl (HTTPError 500), [],
                   \<lparr>issued = [submit_request c ''Projects/B''],
                    sent = [submit_request c ''Projects/B''],
                    out = [Fmt ''Submitting job for: {}'' [JStr ''Projects/B'']]\<rparr>)"
    unfolding c_def by (simp add: batch_run_defs submit_request_def)
  moreover have "batch_loop 0 (\<lambda>n rq. Response \<lparr>status_code = 500, body = None\<rparr>) (\<lambda>j. ''?'') c False
             [''Projects/B''] [] \<lparr>issued = [], sent = [], out = []\<rparr>
           = Some ([],
                   \<lparr>issued = [submit_request c ''Projects/B''],
                    sent = [submit_request c ''Projects/B''],
                    out = [Fmt ''Submitting job for: {}'' [JStr ''Projects/B''],
                           ErrorLine ''  Error: {}'' (HTTPError 500)]\<rparr>)"
  proof -
    have quiet: "False \<Longrightarrow> \<forall>job_id w1.
        monitor_job 0 (\<lambda>n rq. Response \<lparr>status_code = 500, body = None\<rparr>) c job_id 5 None w1 \<noteq> None"
      by simp
    show ?thesis
      using batch_cache_directories_collects_created_jobs
        [where fuel = 0 and srv = "\<lambda>n rq. Response \<lparr>status_code = 500, body = None\<rparr>"
           and render = "\<lambda>j. ''?''" and c = c and monitor = False and before = "[]"
           and ids = "[]" and ?w0.0 = "\<lparr>issued = [], sent = [], out = []\<rparr>"
           and ?ids1.0 = "[]" and ?w1.0 = "\<lparr>issued = [], sent = [], out = []\<rparr>"
           and directory = "''Projects/B''" and e = "HTTPError 500" and ?ids2.0 = "[]"
           and ?w2.0 = "\<lparr>issued = [submit_request c ''Projects/B''],
                    sent = [submit_request c ''Projects/B''],
                    out = [Fmt ''Submitting job for: {}'' [JStr ''Projects/B'']]\<rparr>"
           and rest = "[]", OF quiet, THEN conjunct2]
        ts
      by (simp add: print_def)
  qed
  ultimately show ?thesis
    using main unfolding run_def srv_def c_def by auto
qed

end
